theory Spec2Isabelle
  imports Complex_Main "HOL-Library.Sublist"
begin

section \<open>JavaScript numbers, faults and rounding\<close>

text \<open>
  The prediction engine is \<^verbatim>\<open>server/storage.ts\<close> in its 3D chamber version, the copy that
  follows the route handlers in \<^verbatim>\<open>src/server/routes.ts\<close>. It computes on IEEE doubles.
  The model computes on the reals: \<^verbatim>\<open>Math.exp\<close>, \<^verbatim>\<open>Math.sin\<close>, \<^verbatim>\<open>Math.sqrt\<close> and
  \<^verbatim>\<open>Math.PI\<close> are \<open>exp\<close>, \<open>sin\<close>, \<open>sqrt\<close> and \<open>pi\<close>, and the rounding error of the
  double operations is not part of the model. A double operation returns the double
  nearest to the real result, so the value the code holds and the value the model holds
  differ in the last bits, and a rounding to decimals or a comparison against a threshold
  can fall on the other side for the two. A property that is to hold of the code as well
  is for that reason stated for every value within \<open>doubleSlack\<close> of the model's.

  The reals have no \<^verbatim>\<open>Infinity\<close> and no \<^verbatim>\<open>NaN\<close>, and HOL has no \<^verbatim>\<open>undefined\<close>.
  Where the source can leave the finite numbers (a division by a variable, a logarithm)
  or read a property of \<^verbatim>\<open>undefined\<close>, the model returns a fault instead of a value.
\<close>

datatype fault =
    TypeError   \<comment> \<open>an index read on \<^verbatim>\<open>undefined\<close>\<close>
  | NotFinite   \<comment> \<open>the double would be \<^verbatim>\<open>Infinity\<close> or \<^verbatim>\<open>NaN\<close>\<close>

definition bindE :: "fault + 'a \<Rightarrow> ('a \<Rightarrow> fault + 'b) \<Rightarrow> fault + 'b" where
  "bindE m f = (case m of Inl e \<Rightarrow> Inl e | Inr v \<Rightarrow> f v)"

fun mapE :: "('a \<Rightarrow> fault + 'b) \<Rightarrow> 'a list \<Rightarrow> fault + 'b list" where
  "mapE f [] = Inr []"
| "mapE f (a # as) = bindE (f a) (\<lambda>b. bindE (mapE f as) (\<lambda>bs. Inr (b # bs)))"

definition js_div :: "real \<Rightarrow> real \<Rightarrow> fault + real" where
  "js_div a b = (if b = 0 then Inl NotFinite else Inr (a / b))"

definition js_log10 :: "real \<Rightarrow> fault + real" where
  "js_log10 v = (if v \<le> 0 then Inl NotFinite else Inr (log 10 v))"

text \<open>
  \<^verbatim>\<open>xs[i]\<close> on an array is \<^verbatim>\<open>undefined\<close> out of range. A further index read on it
  throws (\<open>TypeError\<close>); a number read from it turns arithmetic into \<^verbatim>\<open>NaN\<close>
  (\<open>NotFinite\<close>).
\<close>

definition layerAt :: "'a list \<Rightarrow> nat \<Rightarrow> fault + 'a" where
  "layerAt xs n = (if n < length xs then Inr (xs ! n) else Inl TypeError)"

definition numberAt :: "real list \<Rightarrow> nat \<Rightarrow> fault + real" where
  "numberAt xs n = (if n < length xs then Inr (xs ! n) else Inl NotFinite)"

definition cellAt :: "real list list list \<Rightarrow> nat \<Rightarrow> nat \<Rightarrow> nat \<Rightarrow> fault + real" where
  "cellAt g k i j = bindE (layerAt g k) (\<lambda>layer. bindE (layerAt layer i) (\<lambda>row. numberAt row j))"

definition planeAt :: "real list list \<Rightarrow> nat \<Rightarrow> nat \<Rightarrow> fault + real" where
  "planeAt layer i j = bindE (layerAt layer i) (\<lambda>row. numberAt row j)"

text \<open>
  \<^verbatim>\<open>Number(v.toFixed(f))\<close>: the decimal with \<open>f\<close> fraction digits nearest to \<open>v\<close>, a tie
  going away from zero (ECMAScript picks the larger \<open>n\<close> for the magnitude and puts the
  sign back).
\<close>

definition toFixed :: "nat \<Rightarrow> real \<Rightarrow> real" where
  "toFixed f v =
     (if v < 0 then - (of_int \<lfloor>(- v) * 10 ^ f + 1 / 2\<rfloor> / 10 ^ f)
      else of_int \<lfloor>v * 10 ^ f + 1 / 2\<rfloor> / 10 ^ f)"


section \<open>Data model (\<^verbatim>\<open>shared/schema.ts\<close>)\<close>

record ProcessParameters =
  rfPower :: real
  pressure :: real
  gasFlowCF4 :: real
  gasFlowO2 :: real
  gasFlowAr :: real
  pulseEnabled :: bool
  pulseDutyCycle :: "real option"
  pulseFrequency :: "real option"
  processTime :: real
  chamberRfHours :: "real option"

definition optBetween :: "real \<Rightarrow> real \<Rightarrow> real option \<Rightarrow> bool" where
  "optBetween lo hi v = (case v of None \<Rightarrow> True | Some w \<Rightarrow> lo \<le> w \<and> w \<le> hi)"

text \<open>\<^verbatim>\<open>processParametersSchema\<close>: what \<^verbatim>\<open>parse\<close> accepts in the route handler.\<close>

definition processParametersSchema :: "ProcessParameters \<Rightarrow> bool" where
  "processParametersSchema params \<longleftrightarrow>
     100 \<le> rfPower params \<and> rfPower params \<le> 2000 \<and>
     1 \<le> pressure params \<and> pressure params \<le> 100 \<and>
     0 \<le> gasFlowCF4 params \<and> gasFlowCF4 params \<le> 200 \<and>
     0 \<le> gasFlowO2 params \<and> gasFlowO2 params \<le> 100 \<and>
     0 \<le> gasFlowAr params \<and> gasFlowAr params \<le> 200 \<and>
     optBetween 10 90 (pulseDutyCycle params) \<and>
     optBetween 100 10000 (pulseFrequency params) \<and>
     10 \<le> processTime params \<and> processTime params \<le> 600 \<and>
     optBetween 0 500 (chamberRfHours params)"

record RadicalDistribution =
  grid3D :: "real list list list"
  grid :: "real list list"
  dimensions :: "nat \<times> nat \<times> nat"
  centerEdgeRatio :: real
  topBottomGradient :: real
  highEnergyFraction :: real
  residenceTimeIndex :: real
  verticalUniformity :: real
  wallLossFactor :: real

datatype risk = Low | Medium | High

datatype status = Safe | Warning | Danger

record QualityMetrics =
  etchUniformity :: real
  cdShift :: real
  defectRisk :: risk
  defectRiskScore :: real

record RoiMetrics =
  estimatedBatchProfit :: real
  potentialLossReduction :: real
  waferCost :: real
  batchSize :: real
  yieldRate :: real

record StabilityDataPoint =
  time :: real
  radicalDensity :: real
  uniformity :: real
  temperature :: real

datatype priority = PHigh | PMedium | PLow

record ParameterRecommendation =
  parameter :: string
  currentValue :: real
  recommendedValue :: real
  reason :: string
  priority :: priority

record PredictionResult =
  result_id :: string
  timestamp :: string
  parameters :: ProcessParameters
  radicalDistribution :: RadicalDistribution
  qualityMetrics :: QualityMetrics
  roiMetrics :: "RoiMetrics option"
  stabilityTimeSeries :: "StabilityDataPoint list option"
  status :: status
  recommendations :: "ParameterRecommendation list option"

text \<open>
  \<^verbatim>\<open>Math.random()\<close> is a stream of draws; the model reads draw number \<open>n\<close> as \<open>rnd n\<close>,
  the draws numbered in the order the source makes them. Every draw lies in \<open>[0, 1)\<close>.
\<close>

definition randomSource :: "(nat \<Rightarrow> real) \<Rightarrow> bool" where
  "randomSource rnd \<longleftrightarrow> (\<forall>n. 0 \<le> rnd n \<and> rnd n < 1)"

section \<open>Radical field simulator (\<^verbatim>\<open>simulateRadicalDistribution\<close>)\<close>

definition gridX :: nat where "gridX = 20"
definition gridY :: nat where "gridY = 20"
definition gridZ :: nat where "gridZ = 10"

definition powerFactor :: "ProcessParameters \<Rightarrow> real" where
  "powerFactor params = rfPower params / 1000"

definition pressureFactor :: "ProcessParameters \<Rightarrow> real" where
  "pressureFactor params = pressure params / 50"

definition cf4Flow :: "ProcessParameters \<Rightarrow> real" where
  "cf4Flow params = gasFlowCF4 params / 100"

definition arFlow :: "ProcessParameters \<Rightarrow> real" where
  "arFlow params = gasFlowAr params / 100"

text \<open>\<^verbatim>\<open>params.chamberRfHours || 0\<close>: absent and \<open>0\<close> both give \<open>0\<close>.\<close>

definition rfHours :: "ProcessParameters \<Rightarrow> real" where
  "rfHours params = (case chamberRfHours params of None \<Rightarrow> 0 | Some h \<Rightarrow> h)"

definition agingFactor :: "ProcessParameters \<Rightarrow> real" where
  "agingFactor params = 1 + (rfHours params / 500) * 0.5"

definition agingEdgePenalty :: "ProcessParameters \<Rightarrow> real" where
  "agingEdgePenalty params = 1 - (rfHours params / 500) * 0.3"

definition baseGeneration :: "ProcessParameters \<Rightarrow> real" where
  "baseGeneration params =
     powerFactor params * (1 + cf4Flow params * 0.5) * (1 - pressureFactor params * 0.3)"

text \<open>\<^verbatim>\<open>v || d\<close> on an optional number: the default when absent or \<open>0\<close>.\<close>

definition orDefault :: "real option \<Rightarrow> real \<Rightarrow> real" where
  "orDefault v d = (case v of None \<Rightarrow> d | Some w \<Rightarrow> if w = 0 then d else w)"

definition pulseModulation :: "ProcessParameters \<Rightarrow> fault + real" where
  "pulseModulation params =
     (if pulseEnabled params
      then bindE (js_log10 (orDefault (pulseFrequency params) 1000 / 1000))
             (\<lambda>lg. Inr (orDefault (pulseDutyCycle params) 50 / 100 * (1 + lg * 0.1)))
      else Inr 1)"

definition wallLossCoeff :: "ProcessParameters \<Rightarrow> real" where
  "wallLossCoeff params = (0.3 + (1 - pressureFactor params) * 0.2) * agingFactor params"

definition injectionDecayRate :: "ProcessParameters \<Rightarrow> real" where
  "injectionDecayRate params = 0.2 + (1 - pressureFactor params) * 0.5 + arFlow params * 0.15"

text \<open>
  The body of the three nested loops, before the noise: the density of cell \<open>(k, i, j)\<close>,
  \<open>k\<close> the layer, \<open>i\<close> the depth index, \<open>j\<close> the width index; \<open>pm\<close> is the pulse
  modulation computed before the loops.
\<close>

definition cellDensity :: "ProcessParameters \<Rightarrow> real \<Rightarrow> nat \<Rightarrow> nat \<Rightarrow> nat \<Rightarrow> real" where
  "cellDensity params pm k i j =
     (let z = real k / (real gridZ - 1);
          heightDiffusion = exp (- injectionDecayRate params * (1 - z));
          waferLoss = 1 - 0.15 * exp (- 4 * z);
          rfCouplingProfile = 1 + 0.2 * sin (pi * z);
          y = (real i - real gridY / 2) / (real gridY / 2);
          x = (real j - real gridX / 2) / (real gridX / 2);
          r = sqrt (x * x + y * y);
          rWall = max \<bar>x\<bar> \<bar>y\<bar>;
          radialDecay = 0.2 + (1 - pressureFactor params) * 0.3 + powerFactor params * 0.2;
          radialProfile = exp (- r * r * radialDecay);
          wallLoss = exp (- wallLossCoeff params * rWall * rWall * 0.6 * (1 + 0.2 * (1 - z)));
          pressureEdgeBoost =
            pressureFactor params * 0.25 * (1 - exp (- r * r * 2)) * agingEdgePenalty params;
          density = baseGeneration params * pm
            * (radialProfile * heightDiffusion * waferLoss * rfCouplingProfile * wallLoss)
            + pressureEdgeBoost * baseGeneration params * heightDiffusion
      in if powerFactor params > 1.2
         then density + 0.1 * r * r * (powerFactor params - 1.2) * heightDiffusion
         else density)"

text \<open>The noise, the floor at \<open>0.05\<close> and the rounding to 4 digits, as the loop body ends.\<close>

definition cell :: "ProcessParameters \<Rightarrow> real \<Rightarrow> (nat \<Rightarrow> real) \<Rightarrow> nat \<Rightarrow> nat \<Rightarrow> nat \<Rightarrow> real" where
  "cell params pm rnd k i j =
     (let density = cellDensity params pm k i j;
          noise = (rnd ((k * gridY + i) * gridX + j) - 0.5) * 0.03 * density
      in toFixed 4 (max 0.05 (density + noise)))"

text \<open>The arrays the loops fill: \<^verbatim>\<open>row\<close> (loop on \<open>j\<close>), \<^verbatim>\<open>zLayer\<close> (loop on \<open>i\<close>), \<^verbatim>\<open>grid3D\<close> (loop on \<open>k\<close>).\<close>

definition row :: "ProcessParameters \<Rightarrow> real \<Rightarrow> (nat \<Rightarrow> real) \<Rightarrow> nat \<Rightarrow> nat \<Rightarrow> real list" where
  "row params pm rnd k i = map (\<lambda>j. cell params pm rnd k i j) [0..<gridX]"

definition zLayer :: "ProcessParameters \<Rightarrow> real \<Rightarrow> (nat \<Rightarrow> real) \<Rightarrow> nat \<Rightarrow> real list list" where
  "zLayer params pm rnd k = map (\<lambda>i. row params pm rnd k i) [0..<gridY]"

definition buildGrid :: "ProcessParameters \<Rightarrow> real \<Rightarrow> (nat \<Rightarrow> real) \<Rightarrow> real list list list" where
  "buildGrid params pm rnd = map (\<lambda>k. zLayer params pm rnd k) [0..<gridZ]"

text \<open>\<^verbatim>\<open>xs.reduce((a, b) => a + b, 0) / n\<close>.\<close>

definition average :: "real list \<Rightarrow> real \<Rightarrow> fault + real" where
  "average xs n = js_div (sum_list xs) n"

text \<open>The four wall-midpoint cells of a layer, averaged (the body of the \<^verbatim>\<open>wallAvg\<close> map).\<close>

definition wallMean :: "real list list \<Rightarrow> fault + real" where
  "wallMean layer =
     bindE (planeAt layer 0 (gridX div 2)) (\<lambda>a.
     bindE (planeAt layer (gridY - 1) (gridX div 2)) (\<lambda>b.
     bindE (planeAt layer (gridY div 2) 0) (\<lambda>c.
     bindE (planeAt layer (gridY div 2) (gridX - 1)) (\<lambda>d.
     Inr ((a + b + c + d) / 4)))))"

definition simulateRadicalDistribution ::
  "ProcessParameters \<Rightarrow> (nat \<Rightarrow> real) \<Rightarrow> fault + RadicalDistribution" where
  "simulateRadicalDistribution params rnd =
     bindE (pulseModulation params) (\<lambda>pm.
     bindE (js_div 0.5 (pressureFactor params)) (\<lambda>diffusionCoeff.
     let g = buildGrid params pm rnd;
         midZ = gridZ div 2
     in
     bindE (layerAt g midZ) (\<lambda>grid2D.
     bindE (cellAt g midZ (gridY div 2) (gridX div 2)) (\<lambda>centerValue.
     bindE (mapE (\<lambda>(i, j). cellAt g midZ i j)
              [(0, gridX div 2), (gridY - 1, gridX div 2),
               (gridY div 2, 0), (gridY div 2, gridX - 1)]) (\<lambda>edgeValues.
     bindE (average edgeValues (real (length edgeValues))) (\<lambda>avgEdge.
     bindE (layerAt g 0) (\<lambda>bottomLayer.
     bindE (layerAt g (gridZ - 1)) (\<lambda>topLayer.
     bindE (average (concat bottomLayer) (real (gridX * gridY))) (\<lambda>avgBottom.
     bindE (average (concat topLayer) (real (gridX * gridY))) (\<lambda>avgTop.
     let allValues = concat (concat g) in
     bindE (average allValues (real (length allValues))) (\<lambda>mean3D.
     bindE (average (map (\<lambda>v. (v - mean3D) ^ 2) allValues) (real (length allValues)))
       (\<lambda>variance3D.
     bindE (js_div (sqrt variance3D) mean3D) (\<lambda>spread.
     bindE (mapE (\<lambda>layer. planeAt layer (gridY div 2) (gridX div 2)) g) (\<lambda>centers.
     bindE (average centers (real gridZ)) (\<lambda>centerAvg.
     bindE (mapE wallMean g) (\<lambda>walls.
     bindE (average walls (real gridZ)) (\<lambda>wallAvg.
     bindE (js_div wallAvg centerAvg) (\<lambda>wallRatio.
     bindE (js_div centerValue avgEdge) (\<lambda>ratio.
     bindE (js_div avgTop avgBottom) (\<lambda>gradient.
     bindE (js_div 10 (pressureFactor params)) (\<lambda>residence.
     Inr \<lparr> grid3D = g,
           grid = grid2D,
           dimensions = (gridX, gridY, gridZ),
           centerEdgeRatio = toFixed 3 ratio,
           topBottomGradient = toFixed 3 gradient,
           highEnergyFraction =
             toFixed 3 (0.15 + powerFactor params * 0.2 - pressureFactor params * 0.1),
           residenceTimeIndex = toFixed 2 (residence * (1 + arFlow params * 0.2)),
           verticalUniformity = toFixed 1 (100 - spread * 100),
           wallLossFactor = toFixed 3 (1 - wallRatio) \<rparr>
     )))))))))))))))))))))"

section \<open>Quality predictor (\<^verbatim>\<open>predictQualityMetrics\<close>)\<close>

text \<open>The local \<^verbatim>\<open>uniformity\<close> after the clamp, before it is rounded for the report.\<close>

definition uniformityOf :: "ProcessParameters \<Rightarrow> RadicalDistribution \<Rightarrow> real" where
  "uniformityOf params distribution =
     (let ratioDeviation = \<bar>centerEdgeRatio distribution - 1\<bar>;
          gradientDeviation = \<bar>topBottomGradient distribution - 1\<bar>;
          u0 = 100 - ratioDeviation * 15 - gradientDeviation * 10;
          u1 = (if centerEdgeRatio distribution > 1.5
                then (let excessRatio = centerEdgeRatio distribution - 1.5;
                          penaltyFactor = exp (- 2.5 * excessRatio * excessRatio)
                      in u0 * penaltyFactor - excessRatio * 25)
                else u0);
          u2 = (if centerEdgeRatio distribution < 0.7
                then u1 - (0.7 - centerEdgeRatio distribution) * 30 else u1);
          u3 = (if pulseEnabled params then u2 + 2 else u2);
          u4 = (if pressure params > 60 then u3 - (pressure params - 60) * 0.1 else u3)
      in max 50 (min 99.5 u4))"

text \<open>
  The older 2D engine (\<^verbatim>\<open>server/storage.ts\<close> as the file stands) computes its uniformity
  without the two ratio penalties and floors it at 75.
\<close>

definition uniformityOf2D :: "ProcessParameters \<Rightarrow> RadicalDistribution \<Rightarrow> real" where
  "uniformityOf2D params distribution =
     (let ratioDeviation = \<bar>centerEdgeRatio distribution - 1\<bar>;
          gradientDeviation = \<bar>topBottomGradient distribution - 1\<bar>;
          u0 = 100 - ratioDeviation * 15 - gradientDeviation * 10;
          u1 = (if pulseEnabled params then u0 + 2 else u0);
          u2 = (if pressure params > 60 then u1 - (pressure params - 60) * 0.1 else u1)
      in max 75 (min 99.5 u2))"

text \<open>The local \<^verbatim>\<open>cdShift\<close>; \<open>u\<close> is the draw of \<^verbatim>\<open>Math.random()\<close> it uses.\<close>

definition cdShiftOf :: "RadicalDistribution \<Rightarrow> real \<Rightarrow> real" where
  "cdShiftOf distribution u =
     (let c0 = (centerEdgeRatio distribution - 1) * 2
               + (highEnergyFraction distribution - 0.25) * 3;
          c1 = (if centerEdgeRatio distribution > 1.5
                then c0 + (centerEdgeRatio distribution - 1.5) * 4 else c0)
      in toFixed 2 (c1 + (u - 0.5) * 0.5))"

text \<open>The local \<^verbatim>\<open>riskScore\<close> after the clamp to \<open>[0, 100]\<close>.\<close>

definition riskScoreOf :: "ProcessParameters \<Rightarrow> RadicalDistribution \<Rightarrow> real \<Rightarrow> real" where
  "riskScoreOf params distribution u =
     (let ratioDeviation = \<bar>centerEdgeRatio distribution - 1\<bar>;
          gradientDeviation = \<bar>topBottomGradient distribution - 1\<bar>;
          r0 = ratioDeviation * 30 + gradientDeviation * 20
               + max 0 (highEnergyFraction distribution - 0.35) * 50
               + max 0 (rfPower params - 1500) / 50
               + max 0 (10 - pressure params) * 2;
          r1 = (if centerEdgeRatio distribution > 1.5
                then r0 + (centerEdgeRatio distribution - 1.5) * 40 else r0)
      in min 100 (max 0 (r1 + (u - 0.5) * 5)))"

definition defectRiskOf :: "real \<Rightarrow> risk" where
  "defectRiskOf riskScore = (if riskScore < 25 then Low else if riskScore < 55 then Medium else High)"

text \<open>The if-chain under \<^verbatim>\<open>// Overall status\<close>.\<close>

definition overallStatus :: "real \<Rightarrow> real \<Rightarrow> risk \<Rightarrow> status" where
  "overallStatus u cd dr =
     (if u \<ge> 94 \<and> \<bar>cd\<bar> \<le> 2 \<and> dr = Low then Safe
      else if u \<ge> 88 \<and> \<bar>cd\<bar> \<le> 4 \<and> dr \<noteq> High then Warning
      else Danger)"

text \<open>Draws \<open>n\<close> and \<open>n + 1\<close> of the random source are the two this function makes.\<close>

definition predictQualityMetrics ::
  "ProcessParameters \<Rightarrow> RadicalDistribution \<Rightarrow> (nat \<Rightarrow> real) \<Rightarrow> nat \<Rightarrow> QualityMetrics \<times> status" where
  "predictQualityMetrics params distribution rnd n =
     (let uniformity = uniformityOf params distribution;
          cdShift = cdShiftOf distribution (rnd n);
          riskScore = riskScoreOf params distribution (rnd (n + 1));
          defectRisk = defectRiskOf riskScore
      in (\<lparr> etchUniformity = toFixed 1 uniformity,
             cdShift = cdShift,
             defectRisk = defectRisk,
             defectRiskScore = toFixed 1 riskScore \<rparr>,
          overallStatus uniformity cdShift defectRisk))"

section \<open>Recommendation engine (\<^verbatim>\<open>generateRecommendations\<close>)\<close>

text \<open>
  The \<^verbatim>\<open>reason\<close> texts are Korean sentences in the source; the model keeps an ASCII
  label for each of them.
\<close>

definition recommend ::
  "bool \<Rightarrow> string \<Rightarrow> real \<Rightarrow> real \<Rightarrow> string \<Rightarrow> priority \<Rightarrow> ParameterRecommendation list" where
  "recommend guard name cur rec why prio =
     (if guard
      then [\<lparr> parameter = name, currentValue = cur, recommendedValue = rec,
               reason = why, priority = prio \<rparr>]
      else [])"

text \<open>The \<^verbatim>\<open>recommendations\<close> array when the sort is reached: the pushes in source order.\<close>

definition pushed ::
  "ProcessParameters \<Rightarrow> RadicalDistribution \<Rightarrow> QualityMetrics \<Rightarrow> ParameterRecommendation list" where
  "pushed params distribution metrics =
     (if centerEdgeRatio distribution > 1.5
      then recommend (pressure params < 30) ''Pressure'' (pressure params)
             (min (pressure params + 10) 35) ''ratio-pressure'' PHigh
         @ recommend (rfPower params > 800) ''RF Power'' (rfPower params)
             (max (rfPower params - 200) 500) ''ratio-power'' PHigh
         @ recommend (\<not> pulseEnabled params) ''Pulse Mode'' 0 1 ''ratio-pulse'' PMedium
      else [])
   @ (if etchUniformity metrics < 88
      then recommend (gasFlowAr params < 80) ''Ar Flow'' (gasFlowAr params)
             (min (gasFlowAr params + 30) 120) ''uniformity-ar'' PMedium
      else [])
   @ (if \<bar>cdShift metrics\<bar> > 3
      then recommend (highEnergyFraction distribution > 0.35) ''RF Power'' (rfPower params)
             (max (rfPower params - 150) 400) ''cd-power'' PHigh
         @ recommend (gasFlowO2 params < 20 \<and> cdShift metrics > 0) ''O2 Flow''
             (gasFlowO2 params) (min (gasFlowO2 params + 10) 30) ''cd-o2'' PMedium
      else [])
   @ (if defectRisk metrics = High
      then recommend (pressure params < 15) ''Pressure'' (pressure params)
             (min (pressure params + 8) 25) ''risk-pressure'' PHigh
         @ recommend (gasFlowCF4 params > 80) ''CF4 Flow'' (gasFlowCF4 params)
             (max (gasFlowCF4 params - 20) 50) ''risk-cf4'' PMedium
      else [])
   @ (if \<bar>topBottomGradient distribution - 1\<bar> > 0.3
      then recommend (gasFlowAr params < 100) ''Ar Flow'' (gasFlowAr params)
             (min (gasFlowAr params + 25) 130) ''gradient-ar'' PLow
      else [])"

fun priorityOrder :: "priority \<Rightarrow> nat" where
  "priorityOrder PHigh = 0"
| "priorityOrder PMedium = 1"
| "priorityOrder PLow = 2"

text \<open>
  \<^verbatim>\<open>Array.prototype.sort\<close> with the comparator \<^verbatim>\<open>priorityOrder[a] - priorityOrder[b]\<close>
  is a stable sort by that key (ECMAScript 2019); \<open>sort_key\<close> is the stable insertion
  sort of the list library. \<^verbatim>\<open>slice(0, 3)\<close> is \<open>take 3\<close>.
\<close>

definition generateRecommendations ::
  "ProcessParameters \<Rightarrow> RadicalDistribution \<Rightarrow> QualityMetrics \<Rightarrow> status
     \<Rightarrow> ParameterRecommendation list" where
  "generateRecommendations params distribution metrics st =
     (if st = Safe then []
      else take 3 (sort_key (\<lambda>a. priorityOrder (priority a)) (pushed params distribution metrics)))"

section \<open>Stability time series (\<^verbatim>\<open>generateStabilityTimeSeries\<close>)\<close>

definition numPointsOf :: "ProcessParameters \<Rightarrow> int" where
  "numPointsOf params = min 60 (\<lfloor>processTime params / 5\<rfloor> + 1)"

text \<open>
  The three phases of a run, for normalised time \<open>t\<close>: what the if-chain of the loop body
  assigns to \<^verbatim>\<open>densityMultiplier\<close>, \<^verbatim>\<open>uniformityDelta\<close> and \<^verbatim>\<open>temperature\<close>.
\<close>

definition phaseOf :: "real \<Rightarrow> real \<Rightarrow> real \<times> real \<times> real" where
  "phaseOf agingInstability t =
     (if t < 0.1
      then (let densityMultiplier = 1 - exp (- t * 30)
            in (densityMultiplier, - 5 * (1 - densityMultiplier), 0.3 + 0.4 * t / 0.1))
      else if t < 0.8
      then (let driftPhase = (t - 0.1) / 0.7
            in (1 + agingInstability * sin (driftPhase * pi),
                - agingInstability * 10 * sin (driftPhase * pi * 2),
                0.7 + 0.2 * driftPhase))
      else (1 + agingInstability * 0.3,
            - agingInstability * 3,
            0.85 + 0.1 * ((t - 0.8) / 0.2)))"

text \<open>
  One pass of the loop body, for loop index \<open>i\<close>; \<open>u\<close> is the draw of
  \<^verbatim>\<open>Math.random()\<close> the pass makes.
\<close>

definition stabilityPoint ::
  "ProcessParameters \<Rightarrow> real \<Rightarrow> real \<Rightarrow> real \<Rightarrow> nat \<Rightarrow> fault + StabilityDataPoint" where
  "stabilityPoint params baseDensity baseUniformity u i =
     (let processTime = processTime params;
          numPoints = numPointsOf params;
          agingInstability = (rfHours params / 500) * 0.15;
          pulseStability = (if pulseEnabled params then 0.98 else 0.85)
      in
      bindE (js_div (real i) (real_of_int (numPoints - 1))) (\<lambda>frac.
      let time = frac * processTime in
      bindE (js_div time processTime) (\<lambda>t.
      let (densityMultiplier, uniformityDelta, temperature) = phaseOf agingInstability t;
          densityMultiplier = densityMultiplier * pulseStability;
          noise = (u - 0.5) * 0.02 * (1 + agingInstability)
      in Inr \<lparr> time = toFixed 1 time,
               radicalDensity = toFixed 4 (baseDensity * densityMultiplier * (1 + noise)),
               uniformity = toFixed 1 (max 50 (min 100 (baseUniformity + uniformityDelta + noise * 10))),
               temperature = toFixed 3 (min 1 (max 0 (temperature + noise * 0.1))) \<rparr>)))"

text \<open>Pass \<open>i\<close> of the loop makes draw \<open>n + i\<close> of the random source.\<close>

definition generateStabilityTimeSeries ::
  "ProcessParameters \<Rightarrow> RadicalDistribution \<Rightarrow> QualityMetrics \<Rightarrow> (nat \<Rightarrow> real) \<Rightarrow> nat
     \<Rightarrow> fault + StabilityDataPoint list" where
  "generateStabilityTimeSeries params distribution metrics rnd n =
     (let baseUniformity = etchUniformity metrics in
      bindE (cellAt (grid3D distribution) 5 10 10) (\<lambda>baseDensity.
      mapE (\<lambda>i. stabilityPoint params baseDensity baseUniformity (rnd (n + i)) i)
        [0..<nat (numPointsOf params)]))"

section \<open>ROI calculator (\<^verbatim>\<open>calculateRoiMetrics\<close>)\<close>

text \<open>The local \<^verbatim>\<open>yieldRate\<close> after the clamp, before it is rounded for the report.\<close>

definition yieldRateOf :: "QualityMetrics \<Rightarrow> real" where
  "yieldRateOf metrics =
     (let y0 = etchUniformity metrics * 0.8;
          y1 = (if defectRisk metrics = Medium then y0 - 10
                else if defectRisk metrics = High then y0 - 25 else y0);
          y2 = y1 - \<bar>cdShift metrics\<bar> * 2
      in max 30 (min 99 y2))"

definition calculateRoiMetrics :: "ProcessParameters \<Rightarrow> QualityMetrics \<Rightarrow> status \<Rightarrow> RoiMetrics" where
  "calculateRoiMetrics params metrics st =
     (let waferCost = 150;
          batchSize = 25;
          baseSellingPrice = 200;
          yieldRate = yieldRateOf metrics;
          goodWafers = real_of_int \<lfloor>batchSize * yieldRate / 100\<rfloor>;
          scrappedWafers = batchSize - goodWafers;
          revenue = goodWafers * baseSellingPrice;
          materialCost = batchSize * waferCost;
          scrapLoss = scrappedWafers * waferCost * 0.5;
          estimatedBatchProfit = revenue - materialCost - scrapLoss;
          optimalYield = 98;
          optimalProfit = real_of_int \<lfloor>batchSize * optimalYield / 100\<rfloor> * baseSellingPrice
                          - batchSize * waferCost;
          potentialLossReduction =
            (if st = Danger then optimalProfit - estimatedBatchProfit
             else if st = Warning then (optimalProfit - estimatedBatchProfit) * 0.5
             else 0)
      in \<lparr> estimatedBatchProfit = toFixed 0 estimatedBatchProfit,
           potentialLossReduction = toFixed 0 potentialLossReduction,
           waferCost = waferCost,
           batchSize = batchSize,
           yieldRate = toFixed 1 yieldRate \<rparr>)"

section \<open>The engine's operation (\<^verbatim>\<open>generatePrediction\<close>)\<close>

text \<open>
  \<open>uuid\<close> and \<open>now\<close> stand for \<^verbatim>\<open>randomUUID()\<close> and \<^verbatim>\<open>new Date().toISOString()\<close>.
  The grid takes the first \<open>gridX * gridY * gridZ\<close> draws, the quality predictor the next
  two, the time series the ones after.
\<close>

definition generatePrediction ::
  "string \<Rightarrow> string \<Rightarrow> ProcessParameters \<Rightarrow> (nat \<Rightarrow> real) \<Rightarrow> fault + PredictionResult" where
  "generatePrediction uuid now params rnd =
     bindE (simulateRadicalDistribution params rnd) (\<lambda>distribution.
     let (metrics, st) = predictQualityMetrics params distribution rnd (gridX * gridY * gridZ);
         recs = generateRecommendations params distribution metrics st;
         roi = calculateRoiMetrics params metrics st
     in
     bindE (generateStabilityTimeSeries params distribution metrics rnd (gridX * gridY * gridZ + 2))
       (\<lambda>series.
     Inr \<lparr> result_id = uuid,
           timestamp = now,
           parameters = params,
           radicalDistribution = distribution,
           qualityMetrics = metrics,
           roiMetrics = Some roi,
           stabilityTimeSeries = Some series,
           status = st,
           recommendations = (if length recs > 0 then Some recs else None) \<rparr>))"

text \<open>The recommendation list a consumer of the result reads: none when the field is absent.\<close>

definition recommendationList :: "PredictionResult \<Rightarrow> ParameterRecommendation list" where
  "recommendationList res = (case recommendations res of None \<Rightarrow> [] | Some recs \<Rightarrow> recs)"

section \<open>Concrete inputs\<close>

text \<open>
  A worn chamber at moderate power with every guard of the recommendation engine
  switched off: pressure 30, RF power 800, pulsing on, Ar flow 100, O2 flow 20, CF4 flow 80.
\<close>

definition wornChamber :: ProcessParameters where
  "wornChamber = \<lparr> rfPower = 800, pressure = 30, gasFlowCF4 = 80, gasFlowO2 = 20,
     gasFlowAr = 100, pulseEnabled = True, pulseDutyCycle = Some 90,
     pulseFrequency = Some 10000, processTime = 120, chamberRfHours = Some 500 \<rparr>"

text \<open>The same chamber run without pulsing: the guard of the pulse suggestion is on.\<close>

definition wornContinuous :: ProcessParameters where
  "wornContinuous = wornChamber\<lparr>pulseEnabled := False\<rparr>"

text \<open>A weak, short-pulsed plasma: every cell of the grid sits on the floor.\<close>

definition weakPlasma :: ProcessParameters where
  "weakPlasma = \<lparr> rfPower = 100, pressure = 50, gasFlowCF4 = 0, gasFlowO2 = 0,
     gasFlowAr = 0, pulseEnabled = True, pulseDutyCycle = Some 10,
     pulseFrequency = Some 100, processTime = 10, chamberRfHours = None \<rparr>"

definition midRandom :: "nat \<Rightarrow> real" where
  "midRandom n = 1 / 2"


text \<open>
  A hot, low-pressure recipe with a centre-heavy distribution and poor metrics: every
  trigger of the recommendation engine fires and every guard lets its suggestion through.
\<close>

definition hotRecipe :: ProcessParameters where
  "hotRecipe = \<lparr> rfPower = 1900, pressure = 5, gasFlowCF4 = 100, gasFlowO2 = 10,
     gasFlowAr = 50, pulseEnabled = False, pulseDutyCycle = None,
     pulseFrequency = None, processTime = 60, chamberRfHours = Some 480 \<rparr>"

definition centreHeavy :: RadicalDistribution where
  "centreHeavy = \<lparr> grid3D = [], grid = [], dimensions = (20, 20, 10),
     centerEdgeRatio = 2, topBottomGradient = 1.5, highEnergyFraction = 0.52,
     residenceTimeIndex = 110, verticalUniformity = 60, wallLossFactor = 0.5 \<rparr>"



definition poorMetrics :: QualityMetrics where
  "poorMetrics = \<lparr> etchUniformity = 50, cdShift = 3.5, defectRisk = High,
     defectRiskScore = 80 \<rparr>"

section \<open>Faults and rounding: basic facts\<close>

lemma toFixed_ge:
  assumes "real_of_int m / 10 ^ f \<le> v"
  shows "real_of_int m / 10 ^ f \<le> toFixed f v"
proof -
  have p: "(0::real) < 10 ^ f" by simp
  from assms have mv: "real_of_int m \<le> v * 10 ^ f"
    by (simp add: pos_divide_le_eq)
  show ?thesis
  proof (cases "v < 0")
    case True
    have "(- v) * 10 ^ f + 1 / 2 < real_of_int (- m) + 1" using mv by simp
    then have "\<lfloor>(- v) * 10 ^ f + 1 / 2\<rfloor> \<le> - m" by linarith
    then have "real_of_int m \<le> - real_of_int \<lfloor>(- v) * 10 ^ f + 1 / 2\<rfloor>" by linarith
    then have "real_of_int m / 10 ^ f \<le> (- real_of_int \<lfloor>(- v) * 10 ^ f + 1 / 2\<rfloor>) / 10 ^ f"
      by (intro divide_right_mono) auto
    then show ?thesis using True
      by (simp add: toFixed_def)
  next
    case False
    have "real_of_int m \<le> v * 10 ^ f + 1 / 2" using mv by simp
    then have "m \<le> \<lfloor>v * 10 ^ f + 1 / 2\<rfloor>" by linarith
    then show ?thesis using False
      by (simp add: toFixed_def divide_le_cancel)
  qed
qed

lemma toFixed_le:
  assumes "v \<le> real_of_int m / 10 ^ f"
  shows "toFixed f v \<le> real_of_int m / 10 ^ f"
proof -
  have p: "(0::real) < 10 ^ f" by simp
  from assms have mv: "v * 10 ^ f \<le> real_of_int m"
    by (simp add: pos_le_divide_eq)
  show ?thesis
  proof (cases "v < 0")
    case True
    have "real_of_int (- m) \<le> (- v) * 10 ^ f + 1 / 2" using mv by simp
    then have "- m \<le> \<lfloor>(- v) * 10 ^ f + 1 / 2\<rfloor>" by linarith
    then have "- real_of_int \<lfloor>(- v) * 10 ^ f + 1 / 2\<rfloor> \<le> real_of_int m" by linarith
    then have "(- real_of_int \<lfloor>(- v) * 10 ^ f + 1 / 2\<rfloor>) / 10 ^ f \<le> real_of_int m / 10 ^ f"
      by (intro divide_right_mono) auto
    then show ?thesis using True
      by (simp add: toFixed_def)
  next
    case False
    have "v * 10 ^ f + 1 / 2 < real_of_int m + 1" using mv by simp
    then have "\<lfloor>v * 10 ^ f + 1 / 2\<rfloor> \<le> m" by linarith
    then show ?thesis using False
      by (simp add: toFixed_def divide_le_cancel)
  qed
qed

lemma toFixed_err: "\<bar>toFixed f v - v\<bar> \<le> 1 / (2 * 10 ^ f)"
proof -
  have p: "(0::real) < 10 ^ f" by simp
  have fl: "\<bar>real_of_int \<lfloor>w + 1 / 2\<rfloor> - w\<bar> \<le> 1 / 2" for w :: real
    by linarith
  show ?thesis
  proof (cases "v < 0")
    case True
    have "toFixed f v - v = - (real_of_int \<lfloor>(- v) * 10 ^ f + 1 / 2\<rfloor> - (- v) * 10 ^ f) / 10 ^ f"
      using True by (simp add: toFixed_def field_simps)
    then have "\<bar>toFixed f v - v\<bar> = \<bar>real_of_int \<lfloor>(- v) * 10 ^ f + 1 / 2\<rfloor> - (- v) * 10 ^ f\<bar> / 10 ^ f"
      by simp
    also have "\<dots> \<le> (1 / 2) / 10 ^ f"
      using fl [of "(- v) * 10 ^ f"] by (intro divide_right_mono) auto
    finally show ?thesis by simp
  next
    case False
    have "toFixed f v - v = (real_of_int \<lfloor>v * 10 ^ f + 1 / 2\<rfloor> - v * 10 ^ f) / 10 ^ f"
      using False by (simp add: toFixed_def field_simps)
    then have "\<bar>toFixed f v - v\<bar> = \<bar>real_of_int \<lfloor>v * 10 ^ f + 1 / 2\<rfloor> - v * 10 ^ f\<bar> / 10 ^ f"
      by simp
    also have "\<dots> \<le> (1 / 2) / 10 ^ f"
      using fl [of "v * 10 ^ f"] by (intro divide_right_mono) auto
    finally show ?thesis by simp
  qed
qed

lemma toFixed_zero [simp]: "toFixed f 0 = 0"
  by (simp add: toFixed_def)

lemma toFixed4_floor: "0.05 \<le> toFixed 4 (max 0.05 v)"
proof -
  have "real_of_int 500 / 10 ^ 4 \<le> toFixed 4 (max 0.05 v)"
    by (rule toFixed_ge) simp
  then show ?thesis by simp
qed

lemma cell_floor: "0.05 \<le> cell params pm rnd k i j"
  unfolding cell_def Let_def by (rule toFixed4_floor)

lemma bindE_Inr [simp]: "bindE (Inr v) f = f v"
  by (simp add: bindE_def)

lemma bindE_Inl [simp]: "bindE (Inl e) f = Inl e"
  by (simp add: bindE_def)

lemma bindE_eq_Inr: "bindE m f = Inr w \<longleftrightarrow> (\<exists>v. m = Inr v \<and> f v = Inr w)"
  by (cases m) simp_all

lemma js_div_Inr: "b \<noteq> 0 \<Longrightarrow> js_div a b = Inr (a / b)"
  by (simp add: js_div_def)

lemma mapE_Inr:
  assumes "\<And>a. a \<in> set as \<Longrightarrow> f a = Inr (h a)"
  shows "mapE f as = Inr (map h as)"
  using assms by (induction as) simp_all

lemma sum_list_lower:
  fixes xs :: "real list"
  assumes "\<And>v. v \<in> set xs \<Longrightarrow> c \<le> v"
  shows "c * real (length xs) \<le> sum_list xs"
  using assms
proof (induction xs)
  case Nil
  then show ?case by simp
next
  case (Cons a xs)
  have "c \<le> a" using Cons.prems by simp
  moreover have "c * real (length xs) \<le> sum_list xs" using Cons by simp
  ultimately show ?case by (simp add: algebra_simps)
qed

section \<open>The grid\<close>

lemma length_row [simp]: "length (row params pm rnd k i) = 20"
  by (simp add: row_def gridX_def)

lemma length_zLayer [simp]: "length (zLayer params pm rnd k) = 20"
  by (simp add: zLayer_def gridY_def)

lemma length_buildGrid [simp]: "length (buildGrid params pm rnd) = 10"
  by (simp add: buildGrid_def gridZ_def)

lemma nth_row: "j < 20 \<Longrightarrow> row params pm rnd k i ! j = cell params pm rnd k i j"
  unfolding row_def gridX_def by (simp del: upt_rec_numeral)

lemma nth_zLayer: "i < 20 \<Longrightarrow> zLayer params pm rnd k ! i = row params pm rnd k i"
  unfolding zLayer_def gridY_def by (simp del: upt_rec_numeral)

lemma nth_buildGrid: "k < 10 \<Longrightarrow> buildGrid params pm rnd ! k = zLayer params pm rnd k"
  unfolding buildGrid_def gridZ_def by (simp del: upt_rec_numeral)

lemma set_buildGrid: "set (buildGrid params pm rnd) = (\<lambda>k. zLayer params pm rnd k) ` {..<10}"
  unfolding buildGrid_def gridZ_def by (simp del: upt_rec_numeral add: lessThan_atLeast0)

lemma set_zLayer: "set (zLayer params pm rnd k) = (\<lambda>i. row params pm rnd k i) ` {..<20}"
  unfolding zLayer_def gridY_def by (simp del: upt_rec_numeral add: lessThan_atLeast0)

lemma set_row: "set (row params pm rnd k i) = (\<lambda>j. cell params pm rnd k i j) ` {..<20}"
  unfolding row_def gridX_def by (simp del: upt_rec_numeral add: lessThan_atLeast0)

lemma layerAt_buildGrid: "k < 10 \<Longrightarrow> layerAt (buildGrid params pm rnd) k = Inr (zLayer params pm rnd k)"
  by (simp add: layerAt_def nth_buildGrid)

lemma planeAt_zLayer:
  "i < 20 \<Longrightarrow> j < 20 \<Longrightarrow> planeAt (zLayer params pm rnd k) i j = Inr (cell params pm rnd k i j)"
  by (simp add: planeAt_def layerAt_def numberAt_def nth_zLayer nth_row)

lemma cellAt_buildGrid:
  "k < 10 \<Longrightarrow> i < 20 \<Longrightarrow> j < 20 \<Longrightarrow> cellAt (buildGrid params pm rnd) k i j = Inr (cell params pm rnd k i j)"
  by (simp add: cellAt_def layerAt_def numberAt_def nth_buildGrid nth_zLayer nth_row)

lemma zLayer_cells_floor:
  assumes "v \<in> set (concat (zLayer params pm rnd k))"
  shows "0.05 \<le> v"
proof -
  from assms obtain i j where "v = cell params pm rnd k i j"
    by (auto simp: set_zLayer set_row)
  then show ?thesis using cell_floor by blast
qed

lemma buildGrid_cells_floor:
  assumes "v \<in> set (concat (concat (buildGrid params pm rnd)))"
  shows "0.05 \<le> v"
proof -
  from assms obtain k i j where "v = cell params pm rnd k i j"
    by (auto simp: set_buildGrid set_zLayer set_row)
  then show ?thesis using cell_floor by blast
qed

lemma length_concat_zLayer [simp]: "length (concat (zLayer params pm rnd k)) = 400"
proof -
  have "map length (zLayer params pm rnd k) = map (\<lambda>i. 20) [0..<gridY]"
    unfolding zLayer_def by (simp add: comp_def)
  then show ?thesis by (simp add: length_concat sum_list_triv gridY_def del: upt_rec_numeral)
qed

lemma length_concat_concat:
  "length (concat (concat xsss)) = sum_list (map (\<lambda>l. length (concat l)) xsss)"
  by (induction xsss) simp_all

lemma length_concat_buildGrid [simp]: "length (concat (concat (buildGrid params pm rnd))) = 4000"
proof -
  have "map (\<lambda>l. length (concat l)) (buildGrid params pm rnd) = map (\<lambda>k. 400) [0..<gridZ]"
    unfolding buildGrid_def by (simp add: comp_def)
  then show ?thesis
    by (simp add: length_concat_concat sum_list_triv gridZ_def del: upt_rec_numeral)
qed

lemma zLayer_sum_pos: "0 < sum_list (concat (zLayer params pm rnd k))"
  using sum_list_lower [of "concat (zLayer params pm rnd k)" "0.05"] zLayer_cells_floor [of _ params pm rnd k]
  by simp

lemma buildGrid_sum_pos: "0 < sum_list (concat (concat (buildGrid params pm rnd)))"
  using sum_list_lower [of "concat (concat (buildGrid params pm rnd))" "0.05"]
    buildGrid_cells_floor [of _ params pm rnd]
  by simp




lemma sum_list_pos:
  fixes xs :: "real list"
  assumes "xs \<noteq> []" and "\<And>v. v \<in> set xs \<Longrightarrow> 0 < v"
  shows "0 < sum_list xs"
  using assms
proof (induction xs)
  case Nil
  then show ?case by simp
next
  case (Cons a xs)
  have "0 < a" using Cons.prems by simp
  moreover have "0 \<le> sum_list xs"
    by (rule sum_list_nonneg) (use Cons.prems in \<open>auto intro: less_imp_le\<close>)
  ultimately show ?case by simp
qed

lemma cell_pos: "0 < cell params pm rnd k i j"
proof -
  have "(0::real) < 0.05" by simp
  then show ?thesis using cell_floor by (rule less_le_trans)
qed

lemma buildGrid_nonempty: "concat (concat (buildGrid params pm rnd)) \<noteq> []"
proof
  assume "concat (concat (buildGrid params pm rnd)) = []"
  then have "length (concat (concat (buildGrid params pm rnd))) = length ([] :: real list)"
    by (rule arg_cong)
  then show False by (simp only: length_concat_buildGrid list.size)
qed

lemma planeAt_in_grid:
  assumes "layer \<in> set (buildGrid params pm rnd)" "i < 20" "j < 20"
  shows "planeAt layer i j = Inr (layer ! i ! j)" "0 < layer ! i ! j"
proof -
  from assms(1) obtain k where l: "layer = zLayer params pm rnd k"
    by (auto simp: set_buildGrid)
  show "planeAt layer i j = Inr (layer ! i ! j)"
    using assms(2,3) by (simp add: l planeAt_zLayer nth_zLayer nth_row)
  show "0 < layer ! i ! j"
    using assms(2,3) cell_pos [of params pm rnd k i j] by (simp only: l nth_zLayer nth_row)
qed

lemma centers_in_grid:
  "mapE (\<lambda>layer. planeAt layer 10 10) (buildGrid params pm rnd)
     = Inr (map (\<lambda>layer. layer ! 10 ! 10) (buildGrid params pm rnd))"
  by (rule mapE_Inr) (simp add: planeAt_in_grid(1))

lemma centers_sum_pos: "0 < sum_list (map (\<lambda>layer. layer ! 10 ! 10) (buildGrid params pm rnd))"
proof (rule sum_list_pos)
  show "map (\<lambda>layer. layer ! 10 ! 10) (buildGrid params pm rnd) \<noteq> []"
  proof
    assume "map (\<lambda>layer. layer ! 10 ! 10) (buildGrid params pm rnd) = []"
    then have "length (buildGrid params pm rnd) = 0" by simp
    then show False by (simp only: length_buildGrid)
  qed
  show "0 < v" if "v \<in> set (map (\<lambda>layer. layer ! 10 ! 10) (buildGrid params pm rnd))" for v
    using that by (auto intro: planeAt_in_grid(2))
qed

lemma wallMean_in_grid:
  assumes "layer \<in> set (buildGrid params pm rnd)"
  shows "wallMean layer = Inr ((layer ! 0 ! 10 + layer ! 19 ! 10 + layer ! 10 ! 0 + layer ! 10 ! 19) / 4)"
  using assms by (simp add: wallMean_def gridX_def gridY_def planeAt_in_grid(1))

lemma walls_in_grid:
  "mapE wallMean (buildGrid params pm rnd)
     = Inr (map (\<lambda>layer. (layer ! 0 ! 10 + layer ! 19 ! 10 + layer ! 10 ! 0 + layer ! 10 ! 19) / 4)
              (buildGrid params pm rnd))"
  by (rule mapE_Inr) (rule wallMean_in_grid)

lemma edges_in_grid:
  "mapE (\<lambda>(i, j). cellAt (buildGrid params pm rnd) 5 i j) [(0, 10), (19, 10), (10, 0), (10, 19)]
     = Inr [cell params pm rnd 5 0 10, cell params pm rnd 5 19 10,
            cell params pm rnd 5 10 0, cell params pm rnd 5 10 19]"
  by (simp add: cellAt_buildGrid)

lemma edges_sum_pos:
  "0 < cell params pm rnd 5 0 10 + cell params pm rnd 5 19 10
     + cell params pm rnd 5 10 0 + cell params pm rnd 5 10 19"
  using cell_pos [of params pm rnd 5 0 10] cell_pos [of params pm rnd 5 19 10]
    cell_pos [of params pm rnd 5 10 0] cell_pos [of params pm rnd 5 10 19]
  by linarith

text \<open>What the simulator returns once the pulse modulation is a number and the pressure is not 0.\<close>

lemma simulate_returns:
  assumes pm: "pulseModulation params = Inr pm" and pr: "pressureFactor params \<noteq> 0"
  shows "\<exists>vu wl. simulateRadicalDistribution params rnd = Inr
     \<lparr> grid3D = buildGrid params pm rnd,
       grid = zLayer params pm rnd 5,
       dimensions = (20, 20, 10),
       centerEdgeRatio = toFixed 3 (cell params pm rnd 5 10 10 /
         (sum_list [cell params pm rnd 5 0 10, cell params pm rnd 5 19 10,
                    cell params pm rnd 5 10 0, cell params pm rnd 5 10 19] / 4)),
       topBottomGradient = toFixed 3 (sum_list (concat (zLayer params pm rnd 9)) / 400 /
         (sum_list (concat (zLayer params pm rnd 0)) / 400)),
       highEnergyFraction = toFixed 3 (0.15 + powerFactor params * 0.2 - pressureFactor params * 0.1),
       residenceTimeIndex = toFixed 2 (10 / pressureFactor params * (1 + arFlow params * 0.2)),
       verticalUniformity = vu,
       wallLossFactor = wl \<rparr>"
proof -
  note z0 = zLayer_sum_pos [of params pm rnd 0]
  note cs = centers_sum_pos [of params pm rnd]
  note al = buildGrid_sum_pos [of params pm rnd]
  note ed = edges_sum_pos [of params pm rnd]
  show ?thesis
    unfolding simulateRadicalDistribution_def
    using pr z0 cs al ed buildGrid_nonempty [of params pm rnd]
    by (simp add: pm Let_def gridX_def gridY_def gridZ_def js_div_def average_def
        layerAt_buildGrid cellAt_buildGrid centers_in_grid walls_in_grid edges_in_grid
        del: upt_rec_numeral)
qed

section \<open>The time series and the assembled result\<close>

lemma mapE_total:
  assumes "\<And>a. a \<in> set as \<Longrightarrow> \<exists>b. f a = Inr b"
  shows "mapE f as = Inr (map (\<lambda>a. projr (f a)) as)"
  using assms
proof (induction as)
  case Nil
  then show ?case by simp
next
  case (Cons a as)
  from Cons.prems obtain b where b: "f a = Inr b" by auto
  have "mapE f as = Inr (map (\<lambda>a. projr (f a)) as)"
    using Cons by simp
  then show ?case by (simp add: b)
qed

lemma stabilityPoint_returns:
  assumes "numPointsOf params \<noteq> 1" and "processTime params \<noteq> 0"
  shows "\<exists>pt. stabilityPoint params bd bu u i = Inr pt
     \<and> time pt = toFixed 1 (real i / real_of_int (numPointsOf params - 1) * processTime params)"
proof -
  obtain a b c where ph: "phaseOf (rfHours params / 500 * 0.15)
      (real i / real_of_int (numPointsOf params - 1) * processTime params / processTime params) = (a, b, c)"
    by (cases "phaseOf (rfHours params / 500 * 0.15)
      (real i / real_of_int (numPointsOf params - 1) * processTime params / processTime params)") auto
  have d1: "js_div (real i) (real_of_int (numPointsOf params - 1))
      = Inr (real i / real_of_int (numPointsOf params - 1))"
    using assms(1) by (intro js_div_Inr) simp
  have d2: "js_div (real i / real_of_int (numPointsOf params - 1) * processTime params) (processTime params)
      = Inr (real i / real_of_int (numPointsOf params - 1) * processTime params / processTime params)"
    using assms(2) by (rule js_div_Inr)
  show ?thesis
    unfolding stabilityPoint_def Let_def d1 bindE_Inr d2 ph by simp
qed

lemma stability_returns:
  assumes np: "numPointsOf params \<noteq> 1" and pt: "processTime params \<noteq> 0"
    and bd: "cellAt (grid3D d) 5 10 10 = Inr bd"
  shows "\<exists>series. generateStabilityTimeSeries params d m rnd n = Inr series
     \<and> length series = nat (numPointsOf params)
     \<and> (\<forall>i < length series. time (series ! i)
           = toFixed 1 (real i / real_of_int (numPointsOf params - 1) * processTime params))"
proof -
  let ?f = "\<lambda>i. stabilityPoint params bd (etchUniformity m) (rnd (n + i)) i"
  let ?series = "map (\<lambda>i. projr (?f i)) [0..<nat (numPointsOf params)]"
  have "mapE ?f [0..<nat (numPointsOf params)] = Inr ?series"
    by (rule mapE_total) (use stabilityPoint_returns [OF np pt] in blast)
  then have "generateStabilityTimeSeries params d m rnd n = Inr ?series"
    by (simp add: generateStabilityTimeSeries_def bd)
  moreover have "length ?series = nat (numPointsOf params)" by simp
  moreover have "time (?series ! i)
      = toFixed 1 (real i / real_of_int (numPointsOf params - 1) * processTime params)"
    if "i < length ?series" for i
  proof -
    from stabilityPoint_returns [OF np pt, of bd "etchUniformity m" "rnd (n + i)" i]
    obtain p where "?f i = Inr p"
      "time p = toFixed 1 (real i / real_of_int (numPointsOf params - 1) * processTime params)"
      by blast
    then show ?thesis using that by simp
  qed
  ultimately show ?thesis by blast
qed

lemma pulseModulation_returns:
  assumes "processParametersSchema params"
  shows "\<exists>pm. pulseModulation params = Inr pm"
proof -
  have "0 < orDefault (pulseFrequency params) 1000"
  proof (cases "pulseFrequency params")
    case None
    then show ?thesis by (simp add: orDefault_def)
  next
    case (Some w)
    with assms have "100 \<le> w" by (simp add: processParametersSchema_def optBetween_def)
    then show ?thesis using Some by (simp add: orDefault_def)
  qed
  then have lg: "js_log10 (orDefault (pulseFrequency params) 1000 / 1000)
      = Inr (log 10 (orDefault (pulseFrequency params) 1000 / 1000))"
    by (simp add: js_log10_def)
  show ?thesis
  proof (cases "pulseEnabled params")
    case True
    then have "pulseModulation params = Inr (orDefault (pulseDutyCycle params) 50 / 100
        * (1 + log 10 (orDefault (pulseFrequency params) 1000 / 1000) * 0.1))"
      unfolding pulseModulation_def lg by simp
    then show ?thesis ..
  next
    case False
    then have "pulseModulation params = Inr 1"
      unfolding pulseModulation_def by simp
    then show ?thesis ..
  qed
qed

lemma numPoints_valid:
  assumes "processParametersSchema params"
  shows "3 \<le> numPointsOf params"
proof -
  from assms have "10 \<le> processTime params" by (simp add: processParametersSchema_def)
  then have "2 \<le> processTime params / 5" by simp
  then have "2 \<le> \<lfloor>processTime params / 5\<rfloor>" by linarith
  then show ?thesis by (simp add: numPointsOf_def)
qed

text \<open>The result record, field by field, whenever the engine returns one.\<close>

lemma generatePrediction_fields:
  assumes "generatePrediction uuid now params rnd = Inr res"
  shows "\<exists>d series. simulateRadicalDistribution params rnd = Inr d
     \<and> radicalDistribution res = d
     \<and> qualityMetrics res = fst (predictQualityMetrics params d rnd 4000)
     \<and> status res = snd (predictQualityMetrics params d rnd 4000)
     \<and> recommendationList res = generateRecommendations params d (qualityMetrics res) (status res)
     \<and> (recommendations res = None \<longleftrightarrow>
          generateRecommendations params d (qualityMetrics res) (status res) = [])
     \<and> roiMetrics res = Some (calculateRoiMetrics params (qualityMetrics res) (status res))
     \<and> generateStabilityTimeSeries params d (qualityMetrics res) rnd 4002 = Inr series
     \<and> stabilityTimeSeries res = Some series"
  using assms
  by (auto simp: generatePrediction_def bindE_eq_Inr Let_def split_def recommendationList_def
      gridX_def gridY_def gridZ_def split: if_splits)

text \<open>The engine returns a result for every input the schema accepts, whatever the draws.\<close>

lemma generatePrediction_returns:
  assumes v: "processParametersSchema params"
  shows "\<exists>res. generatePrediction uuid now params rnd = Inr res"
proof -
  from pulseModulation_returns [OF v] obtain pm where pm: "pulseModulation params = Inr pm" ..
  from v have pr: "pressureFactor params \<noteq> 0"
    by (simp add: processParametersSchema_def pressureFactor_def)
  from simulate_returns [OF pm pr, of rnd] obtain d
    where d: "simulateRadicalDistribution params rnd = Inr d"
      and g: "grid3D d = buildGrid params pm rnd"
    by force
  have bd: "cellAt (grid3D d) 5 10 10 = Inr (cell params pm rnd 5 10 10)"
    by (simp add: g cellAt_buildGrid)
  from numPoints_valid [OF v] have np: "numPointsOf params \<noteq> 1" by simp
  from v have pt: "processTime params \<noteq> 0" by (simp add: processParametersSchema_def)
  from stability_returns [OF np pt bd] obtain series
    where "generateStabilityTimeSeries params d (fst (predictQualityMetrics params d rnd 4000)) rnd 4002
             = Inr series"
    by blast
  then show ?thesis
    by (simp add: generatePrediction_def d Let_def split_def gridX_def gridY_def gridZ_def)
qed

section \<open>The simulator and the quality predictor: what they return\<close>

lemma simulate_fields:
  assumes "simulateRadicalDistribution params rnd = Inr d"
  obtains pm where "pulseModulation params = Inr pm" and "pressureFactor params \<noteq> 0"
    and "grid3D d = buildGrid params pm rnd"
    and "grid d = zLayer params pm rnd 5"
    and "centerEdgeRatio d = toFixed 3 (cell params pm rnd 5 10 10 /
         (sum_list [cell params pm rnd 5 0 10, cell params pm rnd 5 19 10,
                    cell params pm rnd 5 10 0, cell params pm rnd 5 10 19] / 4))"
    and "topBottomGradient d = toFixed 3 (sum_list (concat (zLayer params pm rnd 9)) / 400 /
         (sum_list (concat (zLayer params pm rnd 0)) / 400))"
    and "highEnergyFraction d = toFixed 3 (0.15 + powerFactor params * 0.2 - pressureFactor params * 0.1)"
    and "residenceTimeIndex d = toFixed 2 (10 / pressureFactor params * (1 + arFlow params * 0.2))"
proof (cases "pulseModulation params")
  case (Inl e)
  then have "simulateRadicalDistribution params rnd = Inl e"
    by (simp add: simulateRadicalDistribution_def)
  with assms show ?thesis by simp
next
  case (Inr pm)
  show ?thesis
  proof (cases "pressureFactor params = 0")
    case True
    then have "simulateRadicalDistribution params rnd = Inl NotFinite"
      by (simp add: simulateRadicalDistribution_def Inr js_div_def)
    with assms show ?thesis by simp
  next
    case False
    from simulate_returns [OF Inr False, of rnd] assms
    show ?thesis using that [OF Inr False] by auto
  qed
qed

lemma simulate_total:
  assumes v: "processParametersSchema params"
  shows "\<exists>d. simulateRadicalDistribution params rnd = Inr d"
proof -
  from pulseModulation_returns [OF v] obtain pm where pm: "pulseModulation params = Inr pm" ..
  from v have pr: "pressureFactor params \<noteq> 0"
    by (simp add: processParametersSchema_def pressureFactor_def)
  from simulate_returns [OF pm pr, of rnd] show ?thesis by blast
qed

lemma wornChamber_valid: "processParametersSchema wornChamber"
  by (simp add: processParametersSchema_def wornChamber_def optBetween_def)

lemma weakPlasma_valid: "processParametersSchema weakPlasma"
  by (simp add: processParametersSchema_def weakPlasma_def optBetween_def)

lemma clamp_uniformity: "50 \<le> max 50 (min 99.5 v)" "max 50 (min 99.5 v) \<le> (99.5::real)"
  by simp_all

lemma uniformityOf_range: "50 \<le> uniformityOf params distribution" "uniformityOf params distribution \<le> 99.5"
  unfolding uniformityOf_def Let_def by (rule clamp_uniformity)+

lemma toFixed1_range:
  assumes "50 \<le> v" "v \<le> 99.5"
  shows "50 \<le> toFixed 1 v" "toFixed 1 v \<le> 99.5"
proof -
  have "real_of_int 500 / 10 ^ 1 \<le> toFixed 1 v"
    by (rule toFixed_ge) (use assms in simp)
  then show "50 \<le> toFixed 1 v" by simp
  have "toFixed 1 v \<le> real_of_int 995 / 10 ^ 1"
    by (rule toFixed_le) (use assms in simp)
  then show "toFixed 1 v \<le> 99.5" by simp
qed

lemma etchUniformity_predict:
  "etchUniformity (fst (predictQualityMetrics params distribution rnd n))
     = toFixed 1 (uniformityOf params distribution)"
  by (simp add: predictQualityMetrics_def Let_def)

section \<open>The status and the reported metrics\<close>





section \<open>The ROI calculator: ranges\<close>







section \<open>The recommendation engine: order and length\<close>





lemma generateRecommendations_length:
  "length (generateRecommendations params distribution metrics st) \<le> 3"
  by (simp add: generateRecommendations_def)


section \<open>The worn chamber: a centre-heavy grid and no recommendation\<close>

lemma cell_midRandom:
  "cell params pm midRandom k i j = toFixed 4 (max 0.05 (cellDensity params pm k i j))"
  by (simp add: cell_def midRandom_def Let_def)

lemma worn_factors:
  "powerFactor wornChamber = 4 / 5" "pressureFactor wornChamber = 3 / 5"
  "baseGeneration wornChamber = 574 / 625" "agingEdgePenalty wornChamber = 7 / 10"
  "wallLossCoeff wornChamber = 57 / 100" "injectionDecayRate wornChamber = 11 / 20"
  "arFlow wornChamber = 1"
  by (simp_all add: powerFactor_def pressureFactor_def baseGeneration_def cf4Flow_def
      agingEdgePenalty_def agingFactor_def rfHours_def wallLossCoeff_def injectionDecayRate_def
      arFlow_def wornChamber_def)

lemma worn_pulse: "pulseModulation wornChamber = Inr (99 / 100)"
  by (simp add: pulseModulation_def js_log10_def orDefault_def wornChamber_def)

text \<open>The pulse switch reaches the grid through the pulse modulation only.\<close>

lemma factors_pulseEnabled:
  "powerFactor (params\<lparr>pulseEnabled := b\<rparr>) = powerFactor params"
  "pressureFactor (params\<lparr>pulseEnabled := b\<rparr>) = pressureFactor params"
  "baseGeneration (params\<lparr>pulseEnabled := b\<rparr>) = baseGeneration params"
  "agingEdgePenalty (params\<lparr>pulseEnabled := b\<rparr>) = agingEdgePenalty params"
  "wallLossCoeff (params\<lparr>pulseEnabled := b\<rparr>) = wallLossCoeff params"
  "injectionDecayRate (params\<lparr>pulseEnabled := b\<rparr>) = injectionDecayRate params"
  "arFlow (params\<lparr>pulseEnabled := b\<rparr>) = arFlow params"
  by (simp_all add: powerFactor_def pressureFactor_def baseGeneration_def cf4Flow_def
      agingEdgePenalty_def agingFactor_def rfHours_def wallLossCoeff_def injectionDecayRate_def
      arFlow_def)

lemma cell_pulseEnabled:
  "cell (params\<lparr>pulseEnabled := b\<rparr>) pm rnd k i j = cell params pm rnd k i j"
  by (simp only: cell_def cellDensity_def factors_pulseEnabled)

lemma worn_center:
  "cellDensity wornChamber pm 5 10 10
     = 574 / 625 * exp (- (11 / 45)) * (pm * ((1 - 0.15 * exp (- (20 / 9))) * (1 + 0.2 * sin (pi * (5 / 9)))))"
  by (simp add: cellDensity_def Let_def worn_factors gridX_def gridY_def gridZ_def)

lemma worn_edges:
  "cellDensity wornChamber pm 5 0 10
     = 574 / 625 * pm * (exp (- (12 / 25)) * exp (- (11 / 45)) * (1 - 0.15 * exp (- (20 / 9)))
         * (1 + 0.2 * sin (pi * (5 / 9))) * exp (- (931 / 2500)))
       + 3 / 5 * 0.25 * (1 - exp (- 2)) * (7 / 10) * (574 / 625) * exp (- (11 / 45))"
  "cellDensity wornChamber pm 5 10 0 = cellDensity wornChamber pm 5 0 10"
  "cellDensity wornChamber pm 5 19 10
     = 574 / 625 * pm * (exp (- (243 / 625)) * exp (- (11 / 45)) * (1 - 0.15 * exp (- (20 / 9)))
         * (1 + 0.2 * sin (pi * (5 / 9))) * exp (- (75411 / 250000)))
       + 3 / 5 * 0.25 * (1 - exp (- (81 / 50))) * (7 / 10) * (574 / 625) * exp (- (11 / 45))"
  "cellDensity wornChamber pm 5 10 19 = cellDensity wornChamber pm 5 19 10"
  by (simp_all add: cellDensity_def Let_def worn_factors gridX_def gridY_def gridZ_def)

lemma exp_neg_upper:
  assumes "0 \<le> (a::real)"
  shows "exp (- a) \<le> 1 / (1 + a + a\<^sup>2 / 2)"
proof -
  have lo: "1 + a + a\<^sup>2 / 2 \<le> exp a"
    using assms by (rule exp_lower_Taylor_quadratic)
  have pos: "0 < 1 + a + a\<^sup>2 / 2"
    using assms by (intro add_pos_nonneg) simp_all
  have "exp (- a) = 1 / exp a" by (simp add: exp_minus inverse_eq_divide)
  also have "\<dots> \<le> 1 / (1 + a + a\<^sup>2 / 2)"
    using lo pos by (intro divide_left_mono) simp_all
  finally show ?thesis .
qed

lemma toFixed4_lower: "v - 1 / 20000 \<le> toFixed 4 (max 0.05 v)"
proof -
  have "\<bar>toFixed 4 (max 0.05 v) - max 0.05 v\<bar> \<le> 1 / 20000"
    using toFixed_err [of 4 "max 0.05 v"] by simp
  moreover have "v \<le> max 0.05 v" by simp
  ultimately show ?thesis by linarith
qed

lemma toFixed4_upper:
  assumes "v \<le> u" and "0.05 \<le> u"
  shows "toFixed 4 (max 0.05 v) \<le> u + 1 / 20000"
proof -
  have "\<bar>toFixed 4 (max 0.05 v) - max 0.05 v\<bar> \<le> 1 / 20000"
    using toFixed_err [of 4 "max 0.05 v"] by simp
  moreover have "max 0.05 v \<le> u" using assms by simp
  ultimately show ?thesis by linarith
qed

text \<open>At mid-height the centre cell of the worn chamber is more than 1.55 times the mean of
  the four wall-midpoint cells, when every draw is 1/2 (no noise).\<close>

lemma worn_ratio:
  assumes pm: "99 / 100 \<le> pm" "pm \<le> 1"
  shows "1.55 \<le> cell wornChamber pm midRandom 5 10 10 /
     (sum_list [cell wornChamber pm midRandom 5 0 10, cell wornChamber pm midRandom 5 19 10,
                cell wornChamber pm midRandom 5 10 0, cell wornChamber pm midRandom 5 10 19] / 4)"
proof -
  define h :: real where "h = exp (- (11 / 45))"
  define W :: real where "W = (1 - 0.15 * exp (- (20 / 9))) * (1 + 0.2 * sin (pi * (5 / 9)))"
  define q1 :: real where "q1 = exp (- (12 / 25)) * exp (- (931 / 2500))"
  define q2 :: real where "q2 = exp (- (243 / 625)) * exp (- (75411 / 250000))"
  define b1 :: real where "b1 = 1 - exp (- 2)"
  define b2 :: real where "b2 = 1 - exp (- (81 / 50))"
  define K :: real where "K = 574 / 625 * h"
  define c where "c = cellDensity wornChamber pm 5 10 10"
  define e1 where "e1 = cellDensity wornChamber pm 5 0 10"
  define e2 where "e2 = cellDensity wornChamber pm 5 19 10"
  have c: "c = K * (pm * W)"
    unfolding c_def worn_center K_def h_def W_def by simp
  have e1: "e1 = K * (pm * W * q1 + 21 / 200 * b1)"
    unfolding e1_def worn_edges(1) K_def h_def W_def q1_def b1_def by (simp add: field_simps)
  have e2: "e2 = K * (pm * W * q2 + 21 / 200 * b2)"
    unfolding e2_def worn_edges(3) K_def h_def W_def q2_def b2_def by (simp add: field_simps)
  have h_lo: "34 / 45 \<le> h"
    unfolding h_def using exp_ge_add_one_self [of "- (11 / 45) :: real"] by simp
  have K_lo: "3 / 5 \<le> K" unfolding K_def using h_lo by simp
  have wl: "17 / 20 \<le> 1 - 0.15 * exp (- (20 / 9) :: real)" by simp
  have "0 \<le> sin (pi * (5 / 9))"
    by (rule sin_ge_zero) (use pi_gt_zero in simp_all)
  then have rf: "1 \<le> 1 + 0.2 * sin (pi * (5 / 9))" by simp
  have W_lo: "17 / 20 \<le> W"
  proof -
    have a0: "0 \<le> 1 - 0.15 * exp (- (20 / 9) :: real)" using wl by linarith
    have "17 / 20 * 1 \<le> (1 - 0.15 * exp (- (20 / 9) :: real)) * (1 + 0.2 * sin (pi * (5 / 9)))"
      using wl rf a0 by (rule mult_mono) simp
    then show ?thesis unfolding W_def by simp
  qed
  have "q1 = exp (- (2131 / 2500))"
    unfolding q1_def by (simp add: exp_add [symmetric])
  also have "\<dots> \<le> 1 / (1 + 2131 / 2500 + (2131 / 2500)\<^sup>2 / 2)"
    by (rule exp_neg_upper) simp
  also have "\<dots> \<le> 113 / 250" by (simp add: power2_eq_square)
  finally have q1: "q1 \<le> 113 / 250" .
  have "q2 = exp (- (172611 / 250000))"
    unfolding q2_def by (simp add: exp_add [symmetric])
  also have "\<dots> \<le> 1 / (1 + 172611 / 250000 + (172611 / 250000)\<^sup>2 / 2)"
    by (rule exp_neg_upper) simp
  also have "\<dots> \<le> 519 / 1000" by (simp add: power2_eq_square)
  finally have q2: "q2 \<le> 519 / 1000" .
  have b1: "b1 \<le> 1" and b2: "b2 \<le> 1" by (simp_all add: b1_def b2_def)
  have W0: "0 \<le> W" using W_lo by simp
  have pm0: "0 \<le> pm" using pm by simp
  have pW: "99 / 100 * (17 / 20) \<le> pm * W"
    using pm(1) W_lo by (intro mult_mono) simp_all
  have K0: "0 \<le> K" using K_lo by simp
  define u1 where "u1 = K * (pm * W * q1 + 21 / 200)"
  define u2 where "u2 = K * (pm * W * q2 + 21 / 200)"
  have e1u: "e1 \<le> u1"
    unfolding e1 u1_def using b1 K0 by (intro mult_left_mono) simp_all
  have e2u: "e2 \<le> u2"
    unfolding e2 u2_def using b2 K0 by (intro mult_left_mono) simp_all
  have q10: "0 \<le> q1" and q20: "0 \<le> q2" by (simp_all add: q1_def q2_def)
  have floor_u: "0.05 \<le> K * (pm * W * q + 21 / 200)" if "0 \<le> q" for q
  proof -
    have "0 \<le> pm * W * q" using W0 that pm0 by simp
    then have "21 / 200 \<le> pm * W * q + 21 / 200" by simp
    then have "3 / 5 * (21 / 200) \<le> K * (pm * W * q + 21 / 200)"
      using K_lo by (intro mult_mono) simp_all
    then show ?thesis by simp
  qed
  define cc where "cc = cell wornChamber pm midRandom 5 10 10"
  define a1 where "a1 = cell wornChamber pm midRandom 5 0 10"
  define a2 where "a2 = cell wornChamber pm midRandom 5 19 10"
  define a3 where "a3 = cell wornChamber pm midRandom 5 10 0"
  define a4 where "a4 = cell wornChamber pm midRandom 5 10 19"
  have cc: "c - 1 / 20000 \<le> cc"
    unfolding cc_def cell_midRandom c_def by (rule toFixed4_lower)
  have ce1: "a1 \<le> u1 + 1 / 20000"
    unfolding a1_def cell_midRandom using e1u floor_u [OF q10]
    by (intro toFixed4_upper) (simp_all add: e1_def u1_def)
  have ce3: "a3 \<le> u1 + 1 / 20000"
    unfolding a3_def cell_midRandom worn_edges(2) using e1u floor_u [OF q10]
    by (intro toFixed4_upper) (simp_all add: e1_def u1_def)
  have ce2: "a2 \<le> u2 + 1 / 20000"
    unfolding a2_def cell_midRandom using e2u floor_u [OF q20]
    by (intro toFixed4_upper) (simp_all add: e2_def u2_def)
  have ce4: "a4 \<le> u2 + 1 / 20000"
    unfolding a4_def cell_midRandom worn_edges(4) using e2u floor_u [OF q20]
    by (intro toFixed4_upper) (simp_all add: e2_def u2_def)
  define avg where "avg = sum_list [a1, a2, a3, a4] / 4"
  have "avg = (a1 + a2 + a3 + a4) / 4"
    unfolding avg_def by simp
  then have avg_hi: "avg \<le> (u1 + u2) / 2 + 1 / 20000"
    using ce1 ce2 ce3 ce4 by argo
  have avg_pos: "0 < avg"
    unfolding avg_def a1_def a2_def a3_def a4_def
    using edges_sum_pos [of wornChamber pm midRandom] by simp
  have mean_u: "(u1 + u2) / 2 = K * (pm * W * ((q1 + q2) / 2) + 21 / 200)"
    unfolding u1_def u2_def by (simp add: algebra_simps)
  have qm: "(q1 + q2) / 2 \<le> 971 / 2000" using q1 q2 by simp
  have gap: "K * (pm * W) - 31 / 20 * (K * (pm * W * ((q1 + q2) / 2) + 21 / 200))
      = K * (pm * W * (1 - 31 / 20 * ((q1 + q2) / 2)) - 651 / 4000)"
    by (simp add: algebra_simps)
  have "1 - 31 / 20 * (971 / 2000) \<le> 1 - 31 / 20 * ((q1 + q2) / 2)" using qm by simp
  then have d0: "(9899 / 40000 :: real) \<le> 1 - 31 / 20 * ((q1 + q2) / 2)" by simp
  have "99 / 100 * (17 / 20) * (9899 / 40000) \<le> pm * W * (1 - 31 / 20 * ((q1 + q2) / 2))"
    using pW d0 by (rule mult_mono) (use pm0 W0 in simp_all)
  then have d1: "1 / 25 \<le> pm * W * (1 - 31 / 20 * ((q1 + q2) / 2)) - 651 / 4000" by simp
  have "3 / 5 * (1 / 25) \<le> K * (pm * W * (1 - 31 / 20 * ((q1 + q2) / 2)) - 651 / 4000)"
    using K_lo d1 by (intro mult_mono) simp_all
  then have "1 / 50 \<le> c - 31 / 20 * ((u1 + u2) / 2)"
    unfolding c mean_u gap by simp
  then have "31 / 20 * avg \<le> cc"
    using cc avg_hi by argo
  then have "31 / 20 \<le> cc / avg"
    using avg_pos by (simp add: pos_le_divide_eq)
  then show ?thesis unfolding avg_def cc_def a1_def a2_def a3_def a4_def by simp
qed

lemma uniformity_centre_heavy:
  assumes r: "1.55 \<le> centerEdgeRatio d" and p: "pressure params \<le> 60"
  shows "uniformityOf params d < 94"
proof -
  define cr where "cr = centerEdgeRatio d"
  define gd where "gd = \<bar>topBottomGradient d - 1\<bar>"
  define u0 where "u0 = 100 - \<bar>cr - 1\<bar> * 15 - gd * 10"
  define pen where "pen = exp (- 2.5 * (cr - 1.5) * (cr - 1.5))"
  have cr: "31 / 20 \<le> cr" using r by (simp add: cr_def)
  have gd0: "0 \<le> gd" by (simp add: gd_def)
  have u0: "u0 \<le> 367 / 4" using cr gd0 unfolding u0_def by simp
  have pen: "0 < pen" "pen \<le> 1"
  proof -
    show "0 < pen" by (simp add: pen_def)
    define s where "s = cr - 1.5"
    have "0 \<le> s * s" by (rule zero_le_square)
    then have "0 \<le> 2.5 * (s * s)" by simp
    moreover have "- 2.5 * s * s = - (2.5 * (s * s))" by simp
    ultimately have "- 2.5 * s * s \<le> 0" by simp
    then show "pen \<le> 1" unfolding pen_def s_def by (simp only: exp_le_one_iff)
  qed
  have prod: "u0 * pen \<le> 367 / 4"
  proof (cases "0 \<le> u0")
    case True
    then have "u0 * pen \<le> u0 * 1" using pen(2) by (intro mult_left_mono) simp_all
    then show ?thesis using u0 by simp
  next
    case False
    then have "u0 * pen \<le> 0" using pen(1) by (simp add: mult_le_0_iff)
    then show ?thesis by simp
  qed
  have big: "cr > 1.5" "\<not> cr < 0.7" using cr by simp_all
  have ex: "5 / 4 \<le> (cr - 1.5) * 25" using cr by simp
  have "uniformityOf params d
      = max 50 (min 99.5 (u0 * pen - (cr - 1.5) * 25 + (if pulseEnabled params then 2 else 0)))"
    unfolding uniformityOf_def Let_def
    using big p by (simp add: cr_def [symmetric] gd_def [symmetric] u0_def pen_def)
  moreover have "u0 * pen - (cr - 1.5) * 25 + (if pulseEnabled params then 2 else 0) \<le> 185 / 2"
    using prod ex by (simp split: if_splits)
  ultimately show ?thesis by simp
qed

lemma status_not_safe:
  assumes "uniformityOf params d < 94"
  shows "snd (predictQualityMetrics params d rnd n) \<noteq> Safe"
  using assms by (simp add: predictQualityMetrics_def Let_def overallStatus_def)

lemma pushed_wornChamber:
  assumes "highEnergyFraction d \<le> 0.35"
  shows "pushed wornChamber d m = []"
  using assms by (simp add: pushed_def recommend_def wornChamber_def)

lemma worn_simulation:
  assumes "simulateRadicalDistribution (wornChamber\<lparr>pulseEnabled := b\<rparr>) midRandom = Inr d"
  shows "1.55 \<le> centerEdgeRatio d" and "highEnergyFraction d \<le> 0.35"
proof -
  let ?p = "wornChamber\<lparr>pulseEnabled := b\<rparr>"
  from assms obtain pm where pm: "pulseModulation ?p = Inr pm"
    and cr: "centerEdgeRatio d = toFixed 3 (cell ?p pm midRandom 5 10 10 /
         (sum_list [cell ?p pm midRandom 5 0 10, cell ?p pm midRandom 5 19 10,
                    cell ?p pm midRandom 5 10 0, cell ?p pm midRandom 5 10 19] / 4))"
    and he: "highEnergyFraction d = toFixed 3 (0.15 + powerFactor ?p * 0.2 - pressureFactor ?p * 0.1)"
    by (rule simulate_fields)
  have "pulseModulation ?p = Inr (if b then 99 / 100 else 1)"
    by (simp add: pulseModulation_def js_log10_def orDefault_def wornChamber_def)
  with pm have "pm = (if b then 99 / 100 else 1)" by simp
  then have pmr: "99 / 100 \<le> pm" "pm \<le> 1" by (simp_all split: if_splits)
  have "real_of_int 1550 / 10 ^ 3 \<le> centerEdgeRatio d"
    unfolding cr cell_pulseEnabled by (rule toFixed_ge) (use worn_ratio [OF pmr] in simp)
  then show "1.55 \<le> centerEdgeRatio d" by simp
  have "highEnergyFraction d \<le> real_of_int 250 / 10 ^ 3"
    unfolding he factors_pulseEnabled by (rule toFixed_le) (simp add: worn_factors)
  then show "highEnergyFraction d \<le> 0.35" by simp
qed

lemma wornChamber_pulsed: "wornChamber = wornChamber\<lparr>pulseEnabled := True\<rparr>"
  by (simp add: wornChamber_def)

lemma wornContinuous_valid: "processParametersSchema wornContinuous"
  by (simp add: processParametersSchema_def wornContinuous_def wornChamber_def optBetween_def)

lemma pushed_wornContinuous:
  assumes "1.55 \<le> centerEdgeRatio d" and "highEnergyFraction d \<le> 0.35"
  shows "pushed wornContinuous d m
     = [\<lparr> parameter = ''Pulse Mode'', currentValue = 0, recommendedValue = 1,
          reason = ''ratio-pulse'', priority = PMedium \<rparr>]"
  using assms by (simp add: pushed_def recommend_def wornContinuous_def wornChamber_def)

text \<open>The worn chamber with no noise: the engine reports an unsafe status and no recommendation.\<close>

lemma worn_prediction:
  "\<exists>res. generatePrediction uuid now wornChamber midRandom = Inr res
     \<and> status res \<noteq> Safe \<and> recommendations res = None \<and> recommendationList res = []"
proof -
  from generatePrediction_returns [OF wornChamber_valid]
  obtain res where res: "generatePrediction uuid now wornChamber midRandom = Inr res" ..
  from generatePrediction_fields [OF res] obtain d
    where d: "simulateRadicalDistribution wornChamber midRandom = Inr d"
      and st: "status res = snd (predictQualityMetrics wornChamber d midRandom 4000)"
      and rl: "recommendationList res
          = generateRecommendations wornChamber d (qualityMetrics res) (status res)"
      and rn: "recommendations res = None \<longleftrightarrow>
          generateRecommendations wornChamber d (qualityMetrics res) (status res) = []"
    by (elim exE conjE) (rule that; assumption)
  from d have "simulateRadicalDistribution (wornChamber\<lparr>pulseEnabled := True\<rparr>) midRandom = Inr d"
    by (simp only: wornChamber_pulsed [symmetric])
  note w = worn_simulation [OF this]
  have "uniformityOf wornChamber d < 94"
    using w(1) by (rule uniformity_centre_heavy) (simp add: wornChamber_def)
  then have ns: "status res \<noteq> Safe" unfolding st by (rule status_not_safe)
  have e: "generateRecommendations wornChamber d (qualityMetrics res) (status res) = []"
    unfolding generateRecommendations_def pushed_wornChamber [OF w(2)] by simp
  have l: "recommendationList res = []" unfolding rl by (fact e)
  have n: "recommendations res = None" using e by (simp only: rn)
  from res ns n l show ?thesis by blast
qed

text \<open>Without pulsing: an unsafe status and the one suggestion to switch pulsing on.\<close>

lemma continuous_prediction:
  "\<exists>res. generatePrediction uuid now wornContinuous midRandom = Inr res
     \<and> status res \<noteq> Safe
     \<and> recommendations res
         = Some [\<lparr> parameter = ''Pulse Mode'', currentValue = 0, recommendedValue = 1,
                   reason = ''ratio-pulse'', priority = PMedium \<rparr>]"
proof -
  from generatePrediction_returns [OF wornContinuous_valid]
  obtain res where res: "generatePrediction uuid now wornContinuous midRandom = Inr res" ..
  from generatePrediction_fields [OF res] obtain d
    where d: "simulateRadicalDistribution wornContinuous midRandom = Inr d"
      and st: "status res = snd (predictQualityMetrics wornContinuous d midRandom 4000)"
      and rl: "recommendationList res
          = generateRecommendations wornContinuous d (qualityMetrics res) (status res)"
      and rn: "recommendations res = None \<longleftrightarrow>
          generateRecommendations wornContinuous d (qualityMetrics res) (status res) = []"
    by (elim exE conjE) (rule that; assumption)
  note w = worn_simulation [OF d [unfolded wornContinuous_def]]
  have "uniformityOf wornContinuous d < 94"
    using w(1) by (rule uniformity_centre_heavy) (simp add: wornContinuous_def wornChamber_def)
  then have ns: "status res \<noteq> Safe" unfolding st by (rule status_not_safe)
  have e: "generateRecommendations wornContinuous d (qualityMetrics res) (status res)
      = [\<lparr> parameter = ''Pulse Mode'', currentValue = 0, recommendedValue = 1,
           reason = ''ratio-pulse'', priority = PMedium \<rparr>]"
    unfolding generateRecommendations_def pushed_wornContinuous [OF w] using ns by simp
  have "recommendations res \<noteq> None" using e by (simp only: rn) simp
  then obtain recs where s: "recommendations res = Some recs" by auto
  then have "recommendationList res = recs" by (simp add: recommendationList_def)
  then have "recs = [\<lparr> parameter = ''Pulse Mode'', currentValue = 0, recommendedValue = 1,
           reason = ''ratio-pulse'', priority = PMedium \<rparr>]"
    using rl e by simp
  with res ns s show ?thesis by blast
qed

section \<open>The weak plasma: a grid on the floor and a safe status\<close>

lemma weak_factors:
  "powerFactor weakPlasma = 1 / 10" "pressureFactor weakPlasma = 1"
  "baseGeneration weakPlasma = 7 / 100" "agingEdgePenalty weakPlasma = 1"
  "wallLossCoeff weakPlasma = 3 / 10" "injectionDecayRate weakPlasma = 1 / 5"
  by (simp_all add: powerFactor_def pressureFactor_def baseGeneration_def cf4Flow_def
      agingEdgePenalty_def agingFactor_def rfHours_def wallLossCoeff_def injectionDecayRate_def
      arFlow_def weakPlasma_def)

lemma weak_pulse: "pulseModulation weakPlasma = Inr (9 / 100)"
proof -
  have "log 10 (1 / 10) = - 1"
    by (simp add: log_divide)
  then show ?thesis
    by (simp add: pulseModulation_def js_log10_def orDefault_def weakPlasma_def)
qed

lemma unit_product:
  fixes a b :: real
  assumes "0 \<le> a" "a \<le> 1" "0 \<le> b" "b \<le> c"
  shows "0 \<le> a * b" "a * b \<le> c"
proof -
  show "0 \<le> a * b" using assms by simp
  have "a * b \<le> 1 * c" using assms by (intro mult_mono) simp_all
  then show "a * b \<le> c" by simp
qed

lemma weak_density:
  assumes k: "k < 10"
  shows "cellDensity weakPlasma (9 / 100) k i j \<le> 1 / 20"
proof -
  define z where "z = real k / (real gridZ - 1)"
  define y where "y = (real i - real gridY / 2) / (real gridY / 2)"
  define x where "x = (real j - real gridX / 2) / (real gridX / 2)"
  define r where "r = sqrt (x * x + y * y)"
  define rWall where "rWall = max \<bar>x\<bar> \<bar>y\<bar>"
  define hd where "hd = exp (- (1 / 5) * (1 - z))"
  define wL where "wL = 1 - 0.15 * exp (- 4 * z)"
  define rf where "rf = 1 + 0.2 * sin (pi * z)"
  define rp where "rp = exp (- r * r * (0.2 + (1 - 1) * 0.3 + 1 / 10 * 0.2))"
  define wl where "wl = exp (- (3 / 10) * rWall * rWall * 0.6 * (1 + 0.2 * (1 - z)))"
  define eb where "eb = 1 * 0.25 * (1 - exp (- r * r * 2)) * 1"
  have z: "0 \<le> z" "z \<le> 1" using k by (simp_all add: z_def gridZ_def)
  have rr: "0 \<le> r * r" by (rule zero_le_square)
  have ww: "0 \<le> rWall * rWall" by (rule zero_le_square)
  have hd: "0 \<le> hd" "hd \<le> 1" using z by (simp_all add: hd_def)
  have wL: "0 \<le> wL" "wL \<le> 1"
  proof -
    define E where "E = exp (- 4 * z)"
    have "E \<le> 1" "0 \<le> E" using z by (simp_all add: E_def)
    then show "0 \<le> wL" "wL \<le> 1" unfolding wL_def E_def [symmetric] by simp_all
  qed
  have rf: "0 \<le> rf" "rf \<le> 6 / 5"
  proof -
    define S where "S = sin (pi * z)"
    have "- 1 \<le> S" "S \<le> 1" by (simp_all add: S_def)
    then show "0 \<le> rf" "rf \<le> 6 / 5" unfolding rf_def S_def [symmetric] by simp_all
  qed
  have rp: "0 \<le> rp" "rp \<le> 1"
  proof -
    show "0 \<le> rp" by (simp add: rp_def)
    have "- r * r * (0.2 + (1 - 1) * 0.3 + 1 / 10 * 0.2) = - (r * r * (11 / 50))" by simp
    moreover have "0 \<le> r * r * (11 / 50)" using rr by simp
    ultimately show "rp \<le> 1" unfolding rp_def by simp
  qed
  have wl: "0 \<le> wl" "wl \<le> 1"
  proof -
    show "0 \<le> wl" by (simp add: wl_def)
    have "0 \<le> 1 + 0.2 * (1 - z)" using z by simp
    then have "0 \<le> rWall * rWall * (1 + 0.2 * (1 - z))" using ww by simp
    then have "0 \<le> 3 / 10 * (rWall * rWall * (1 + 0.2 * (1 - z))) * 0.6" by simp
    moreover have "- (3 / 10) * rWall * rWall * 0.6 * (1 + 0.2 * (1 - z))
        = - (3 / 10 * (rWall * rWall * (1 + 0.2 * (1 - z))) * 0.6)" by simp
    ultimately show "wl \<le> 1" unfolding wl_def by simp
  qed
  have eb: "0 \<le> eb" "eb \<le> 1 / 4"
  proof -
    define E where "E = exp (- r * r * 2)"
    have e: "- r * r * 2 = - (r * r * 2)" by simp
    have "0 \<le> r * r * 2" using rr by simp
    then have "E \<le> 1" unfolding E_def e by simp
    moreover have "0 \<le> E" by (simp add: E_def)
    ultimately show "0 \<le> eb" "eb \<le> 1 / 4" unfolding eb_def E_def [symmetric] by simp_all
  qed
  note p1 = unit_product [OF rp hd]
  note p2 = unit_product [OF p1 wL]
  note p3 = unit_product [OF p2 rf]
  have p4: "rp * hd * wL * rf * wl \<le> 6 / 5"
  proof -
    have "rp * hd * wL * rf * wl \<le> 6 / 5 * 1"
      using p3 wl by (intro mult_mono) simp_all
    then show ?thesis by simp
  qed
  have t1: "7 / 100 * (9 / 100) * (rp * hd * wL * rf * wl) \<le> 7 / 100 * (9 / 100) * (6 / 5)"
    using p4 by (intro mult_left_mono) simp_all
  have "eb * hd \<le> 1 / 4" using unit_product(2) [OF hd eb] by (simp add: mult.commute)
  then have t2: "eb * (7 / 100) * hd \<le> 1 / 4 * (7 / 100)" by simp
  have "cellDensity weakPlasma (9 / 100) k i j
      = 7 / 100 * (9 / 100) * (rp * hd * wL * rf * wl) + eb * (7 / 100) * hd"
    unfolding cellDensity_def Let_def weak_factors
      z_def [symmetric] y_def [symmetric] x_def [symmetric] r_def [symmetric] rWall_def [symmetric]
      hd_def [symmetric] wL_def [symmetric] rf_def [symmetric] rp_def [symmetric] wl_def [symmetric]
      eb_def [symmetric]
    by simp
  also have "\<dots> \<le> 7 / 100 * (9 / 100) * (6 / 5) + 1 / 4 * (7 / 100)"
    using t1 t2 by (rule add_mono)
  also have "\<dots> \<le> 1 / 20" by simp
  finally show ?thesis .
qed

lemma weak_cell:
  assumes "k < 10"
  shows "cell weakPlasma (9 / 100) midRandom k i j = 1 / 20"
proof -
  have "max 0.05 (cellDensity weakPlasma (9 / 100) k i j) = 1 / 20"
    using weak_density [OF assms, of i j] by simp
  then have "cell weakPlasma (9 / 100) midRandom k i j = toFixed 4 (1 / 20)"
    unfolding cell_midRandom by simp
  also have "\<dots> = 1 / 20" by (simp add: toFixed_def)
  finally show ?thesis .
qed

lemma sum_list_constant:
  fixes xs :: "real list"
  assumes "\<And>v. v \<in> set xs \<Longrightarrow> v = c"
  shows "sum_list xs = c * real (length xs)"
  using assms by (induction xs) (simp_all add: algebra_simps)

lemma weak_layer_sum:
  assumes "k < 10"
  shows "sum_list (concat (zLayer weakPlasma (9 / 100) midRandom k)) = 20"
proof -
  have "v = 1 / 20" if "v \<in> set (concat (zLayer weakPlasma (9 / 100) midRandom k))" for v
  proof -
    from that obtain i j where "v = cell weakPlasma (9 / 100) midRandom k i j"
      by (auto simp: set_zLayer set_row)
    then show ?thesis by (simp only: weak_cell [OF assms])
  qed
  then have "sum_list (concat (zLayer weakPlasma (9 / 100) midRandom k))
      = 1 / 20 * real (length (concat (zLayer weakPlasma (9 / 100) midRandom k)))"
    by (rule sum_list_constant)
  then show ?thesis by simp
qed

lemma weak_simulation:
  assumes "simulateRadicalDistribution weakPlasma midRandom = Inr d"
  shows "centerEdgeRatio d = 1" and "topBottomGradient d = 1"
    and "highEnergyFraction d = 7 / 100"
proof -
  from assms obtain pm where pm: "pulseModulation weakPlasma = Inr pm"
    and cr: "centerEdgeRatio d = toFixed 3 (cell weakPlasma pm midRandom 5 10 10 /
         (sum_list [cell weakPlasma pm midRandom 5 0 10, cell weakPlasma pm midRandom 5 19 10,
                    cell weakPlasma pm midRandom 5 10 0, cell weakPlasma pm midRandom 5 10 19] / 4))"
    and tb: "topBottomGradient d = toFixed 3 (sum_list (concat (zLayer weakPlasma pm midRandom 9)) / 400 /
         (sum_list (concat (zLayer weakPlasma pm midRandom 0)) / 400))"
    and he: "highEnergyFraction d
        = toFixed 3 (0.15 + powerFactor weakPlasma * 0.2 - pressureFactor weakPlasma * 0.1)"
    by (rule simulate_fields)
  from pm have pm9: "pm = 9 / 100" by (simp add: weak_pulse)
  have one: "toFixed 3 1 = 1" by (simp add: toFixed_def)
  show "centerEdgeRatio d = 1"
    unfolding cr pm9 by (simp add: weak_cell one)
  show "topBottomGradient d = 1"
    unfolding tb pm9 by (simp add: weak_layer_sum one)
  show "highEnergyFraction d = 7 / 100"
    unfolding he weak_factors by (simp add: toFixed_def)
qed

lemma weak_quality:
  assumes "centerEdgeRatio d = 1" "topBottomGradient d = 1" "highEnergyFraction d = 7 / 100"
  shows "snd (predictQualityMetrics weakPlasma d midRandom n) = Safe"
proof -
  have u: "uniformityOf weakPlasma d = 99.5"
    by (simp add: uniformityOf_def Let_def assms weakPlasma_def)
  have "cdShiftOf d (midRandom n) = toFixed 2 (- (27 / 50))"
    by (simp add: cdShiftOf_def Let_def assms midRandom_def)
  also have "\<dots> = - (27 / 50)" by (simp add: toFixed_def)
  finally have c: "cdShiftOf d (midRandom n) = - (27 / 50)" .
  have r: "riskScoreOf weakPlasma d (midRandom m) = 0" for m
    by (simp add: riskScoreOf_def Let_def assms midRandom_def weakPlasma_def)
  show ?thesis
    by (simp add: predictQualityMetrics_def Let_def u c r defectRiskOf_def overallStatus_def)
qed

text \<open>The weak plasma with no noise: the engine reports a safe status.\<close>

lemma weak_prediction:
  "\<exists>res. generatePrediction uuid now weakPlasma midRandom = Inr res \<and> status res = Safe"
proof -
  from generatePrediction_returns [OF weakPlasma_valid]
  obtain res where res: "generatePrediction uuid now weakPlasma midRandom = Inr res" ..
  from generatePrediction_fields [OF res] obtain d
    where d: "simulateRadicalDistribution weakPlasma midRandom = Inr d"
      and st: "status res = snd (predictQualityMetrics weakPlasma d midRandom 4000)"
    by (elim exE conjE) (rule that; assumption)
  have "status res = Safe"
    unfolding st using weak_simulation [OF d] by (rule weak_quality)
  with res show ?thesis by blast
qed

lemma midRandom_source: "randomSource midRandom"
  by (simp add: randomSource_def midRandom_def)

lemma recommendations_field_value:
  assumes "generatePrediction uuid now params rnd = Inr res"
  shows "recommendations res
     = (if generateRecommendations params (radicalDistribution res) (qualityMetrics res) (status res) = []
        then None
        else Some (generateRecommendations params (radicalDistribution res) (qualityMetrics res)
                     (status res)))"
proof -
  from generatePrediction_fields [OF assms] obtain d
    where rd: "radicalDistribution res = d"
      and rl: "recommendationList res
          = generateRecommendations params d (qualityMetrics res) (status res)"
      and rn: "recommendations res = None \<longleftrightarrow>
          generateRecommendations params d (qualityMetrics res) (status res) = []"
    by (elim exE conjE) (rule that; assumption)
  show ?thesis
  proof (cases "recommendations res")
    case None
    then show ?thesis using rn by (simp add: rd)
  next
    case (Some recs)
    then have "recommendationList res = recs" by (simp add: recommendationList_def)
    then show ?thesis using Some rn rl by (simp add: rd)
  qed
qed

section \<open>The claims\<close>

text \<open>
  C1, as the code has it. The list \<^verbatim>\<open>generateRecommendations\<close> returns has at most 3
  entries and is empty when the status is safe; so has the list of every result the engine
  returns. The converse fails: a warning or danger status does not bring a recommendation
  when every guard is off.
\<close>

theorem recommendations_capped:
  "length (generateRecommendations params distribution metrics st) \<le> 3
   \<and> (st = Safe \<longrightarrow> generateRecommendations params distribution metrics st = [])
   \<and> (generatePrediction uuid now params rnd = Inr res \<longrightarrow>
        length (recommendationList res) \<le> 3
        \<and> (status res = Safe \<longrightarrow> recommendationList res = []))"
proof -
  have "length (recommendationList res) \<le> 3 \<and> (status res = Safe \<longrightarrow> recommendationList res = [])"
    if "generatePrediction uuid now params rnd = Inr res"
  proof -
    from generatePrediction_fields [OF that] obtain d
      where "recommendationList res
          = generateRecommendations params d (qualityMetrics res) (status res)"
      by (elim exE conjE) (rule that; assumption)
    then show ?thesis by (simp add: generateRecommendations_def)
  qed
  then show ?thesis by (simp add: generateRecommendations_def)
qed

theorem recommendations_capped_witness:
  "generateRecommendations hotRecipe centreHeavy poorMetrics Safe = []
   \<and> length (generateRecommendations hotRecipe centreHeavy poorMetrics Danger) \<le> 3
   \<and> (\<exists>res. generatePrediction ''id'' ''now'' weakPlasma midRandom = Inr res
         \<and> status res = Safe \<and> recommendationList res = [])
   \<and> (\<exists>res. generatePrediction ''id'' ''now'' wornContinuous midRandom = Inr res
         \<and> status res \<noteq> Safe \<and> length (recommendationList res) = 1)"
proof -
  note t = recommendations_capped [where uuid = "''id''" and now = "''now''" and rnd = midRandom]
  from weak_prediction [of "''id''" "''now''"] obtain r1
    where r1: "generatePrediction ''id'' ''now'' weakPlasma midRandom = Inr r1" "status r1 = Safe"
    by (elim exE conjE) (rule that; assumption)
  have a: "recommendationList r1 = []"
    using t [where params = weakPlasma and res = r1] r1 by simp
  from continuous_prediction [of "''id''" "''now''"] obtain r2
    where r2: "generatePrediction ''id'' ''now'' wornContinuous midRandom = Inr r2"
      "status r2 \<noteq> Safe"
      "recommendations r2
         = Some [\<lparr> parameter = ''Pulse Mode'', currentValue = 0, recommendedValue = 1,
                   reason = ''ratio-pulse'', priority = PMedium \<rparr>]"
    by (elim exE conjE) (rule that; assumption)
  have b: "length (recommendationList r2) = 1"
    unfolding recommendationList_def r2(3) by simp
  have c: "generateRecommendations hotRecipe centreHeavy poorMetrics Safe = []"
    using t [where params = hotRecipe and distribution = centreHeavy and metrics = poorMetrics
        and st = Safe]
    by simp
  have d: "length (generateRecommendations hotRecipe centreHeavy poorMetrics Danger) \<le> 3"
    using t [where params = hotRecipe and distribution = centreHeavy and metrics = poorMetrics
        and st = Danger]
    by (rule conjunct1)
  have e: "\<exists>res. generatePrediction ''id'' ''now'' weakPlasma midRandom = Inr res
         \<and> status res = Safe \<and> recommendationList res = []"
    by (intro exI [of _ r1] conjI r1 a)
  have f: "\<exists>res. generatePrediction ''id'' ''now'' wornContinuous midRandom = Inr res
         \<and> status res \<noteq> Safe \<and> length (recommendationList res) = 1"
    by (intro exI [of _ r2] conjI r2(1,2) b)
  show ?thesis by (intro conjI c d e f)
qed

text \<open>
  C1 as stated fails on the worn chamber (valid parameters, every draw 1/2): the engine
  returns a result whose status is not safe and whose recommendation list is empty.
\<close>

theorem recommendations_iff_safe_counterexample:
  "processParametersSchema wornChamber \<and> randomSource midRandom
   \<and> \<not> isl (generatePrediction ''id'' ''now'' wornChamber midRandom)
   \<and> \<not> (recommendationList (projr (generatePrediction ''id'' ''now'' wornChamber midRandom)) = []
          \<longleftrightarrow> status (projr (generatePrediction ''id'' ''now'' wornChamber midRandom)) = Safe)"
proof -
  from worn_prediction [of "''id''" "''now''"] obtain res
    where r: "generatePrediction ''id'' ''now'' wornChamber midRandom = Inr res"
      and s: "status res \<noteq> Safe" and l: "recommendationList res = []"
    by (elim exE conjE) (rule that; assumption)
  have "\<not> isl (generatePrediction ''id'' ''now'' wornChamber midRandom)"
    unfolding r by simp
  moreover have "\<not> (recommendationList (projr (generatePrediction ''id'' ''now'' wornChamber midRandom)) = []
          \<longleftrightarrow> status (projr (generatePrediction ''id'' ''now'' wornChamber midRandom)) = Safe)"
    unfolding r using s l by simp
  ultimately show ?thesis using wornChamber_valid midRandom_source by (intro conjI)
qed




text \<open>
  C3. Whenever the simulator returns a distribution, every cell of its 3D grid and every
  cell of its 2D grid, which is layer 5 of the 3D grid, is at least 0.05, whatever the
  parameters and the draws: a cell is the 4-digit rounding of a density floored at 0.05
  after the noise, and that rounding does not go below 0.05.
\<close>

theorem density_floor:
  assumes "simulateRadicalDistribution params rnd = Inr d"
  shows "(\<forall>layer \<in> set (grid3D d). \<forall>r \<in> set layer. \<forall>v \<in> set r. 0.05 \<le> v)
       \<and> grid d = grid3D d ! 5
       \<and> (\<forall>r \<in> set (grid d). \<forall>v \<in> set r. 0.05 \<le> v)
       \<and> (\<forall>w. 0.05 \<le> toFixed 4 (max 0.05 w))"
proof -
  from assms obtain pm where g: "grid3D d = buildGrid params pm rnd"
    and s: "grid d = zLayer params pm rnd 5"
    by (rule simulate_fields)
  have "0.05 \<le> v" if "layer \<in> set (grid3D d)" "r \<in> set layer" "v \<in> set r" for layer r v
    using that by (intro buildGrid_cells_floor [of v params pm rnd]) (auto simp: g)
  moreover have "0.05 \<le> v" if "r \<in> set (grid d)" "v \<in> set r" for r v
    using that by (intro zLayer_cells_floor [of v params pm rnd 5]) (auto simp: s)
  moreover have "grid d = grid3D d ! 5"
    by (simp add: g s nth_buildGrid)
  ultimately show ?thesis using toFixed4_floor by blast
qed

theorem density_floor_witness:
  "\<exists>d. simulateRadicalDistribution wornChamber midRandom = Inr d
     \<and> length (grid3D d) = 10 \<and> length (grid d) = 20
     \<and> 0.05 \<le> grid3D d ! 9 ! 19 ! 19 \<and> 0.05 \<le> grid d ! 0 ! 0"
proof -
  from simulate_total [OF wornChamber_valid, of midRandom]
  obtain d where d: "simulateRadicalDistribution wornChamber midRandom = Inr d" ..
  from d obtain pm where g: "grid3D d = buildGrid wornChamber pm midRandom"
    and s: "grid d = zLayer wornChamber pm midRandom 5"
    by (rule simulate_fields)
  have l: "length (grid3D d) = 10" "length (grid d) = 20"
    by (simp_all add: g s)
  have "grid3D d ! 9 \<in> set (grid3D d)" using l by simp
  moreover have "grid3D d ! 9 ! 19 \<in> set (grid3D d ! 9)"
    by (simp add: g nth_buildGrid)
  moreover have "grid3D d ! 9 ! 19 ! 19 \<in> set (grid3D d ! 9 ! 19)"
    by (simp add: g nth_buildGrid nth_zLayer)
  moreover have "grid d ! 0 \<in> set (grid d)" using l by simp
  moreover have "grid d ! 0 ! 0 \<in> set (grid d ! 0)"
    by (simp add: s nth_zLayer)
  ultimately show ?thesis using d l density_floor [OF d] by blast
qed

text \<open>
  C4. For every parameter record the schema accepts, and any draws, the engine returns a
  result: no index read hits \<^verbatim>\<open>undefined\<close>, and every division and the logarithm
  stay finite. The denominators are not 0: \<^verbatim>\<open>pressureFactor\<close>, \<^verbatim>\<open>numPoints - 1\<close> and
  \<^verbatim>\<open>processTime\<close> by the bounds of the schema; \<^verbatim>\<open>avgEdge\<close>, \<^verbatim>\<open>avgBottom\<close>,
  \<^verbatim>\<open>mean3D\<close> and \<^verbatim>\<open>centerAvg\<close> as means of cells, every cell being positive.
\<close>

theorem prediction_total:
  assumes "processParametersSchema params"
  shows "(\<exists>res. generatePrediction uuid now params rnd = Inr res)
       \<and> pressureFactor params \<noteq> 0
       \<and> (pulseEnabled params \<longrightarrow> 0 < orDefault (pulseFrequency params) 1000 / 1000)
       \<and> numPointsOf params - 1 \<noteq> 0
       \<and> processTime params \<noteq> 0
       \<and> 0 < cell params pm rnd k i j"
proof -
  have "\<exists>res. generatePrediction uuid now params rnd = Inr res"
    using assms by (rule generatePrediction_returns)
  moreover have "pressureFactor params \<noteq> 0" "processTime params \<noteq> 0"
    using assms by (simp_all add: processParametersSchema_def pressureFactor_def)
  moreover have "0 < orDefault (pulseFrequency params) 1000 / 1000"
  proof (cases "pulseFrequency params")
    case None
    then show ?thesis by (simp add: orDefault_def)
  next
    case (Some w)
    with assms have "100 \<le> w" by (simp add: processParametersSchema_def optBetween_def)
    then show ?thesis using Some by (simp add: orDefault_def)
  qed
  moreover have "numPointsOf params - 1 \<noteq> 0"
    using numPoints_valid [OF assms] by simp
  ultimately show ?thesis using cell_pos by blast
qed

theorem prediction_total_witness:
  "processParametersSchema wornChamber
     \<and> (\<exists>res. generatePrediction ''id'' ''now'' wornChamber midRandom = Inr res)
     \<and> pressureFactor wornChamber = 3 / 5
     \<and> orDefault (pulseFrequency wornChamber) 1000 / 1000 = 10
     \<and> numPointsOf wornChamber = 25"
proof -
  have "\<exists>res. generatePrediction ''id'' ''now'' wornChamber midRandom = Inr res"
    using prediction_total [OF wornChamber_valid, of "''id''" "''now''" midRandom] by (rule conjunct1)
  moreover have "pressureFactor wornChamber = 3 / 5"
    "orDefault (pulseFrequency wornChamber) 1000 / 1000 = 10" "numPointsOf wornChamber = 25"
    by (simp_all add: pressureFactor_def orDefault_def numPointsOf_def wornChamber_def)
  ultimately show ?thesis using wornChamber_valid by (intro conjI)
qed

text \<open>
  C5. The uniformity is clamped to \<open>[50, 99.5]\<close> after the penalties and bonuses, and the
  reported \<^verbatim>\<open>etchUniformity\<close>, its rounding to one digit, lies in \<open>[50, 99.5]\<close> too: for
  any distribution, and so in every result the engine returns. The floor is 50 and not
  75: the hot recipe on a centre-heavy distribution gets less than 75, which the older 2D
  engine, floored at 75, never reports.
\<close>

theorem uniformity_clamped:
  "50 \<le> uniformityOf params distribution \<and> uniformityOf params distribution \<le> 99.5
     \<and> etchUniformity (fst (predictQualityMetrics params distribution rnd n))
         = toFixed 1 (uniformityOf params distribution)
     \<and> 50 \<le> etchUniformity (fst (predictQualityMetrics params distribution rnd n))
     \<and> etchUniformity (fst (predictQualityMetrics params distribution rnd n)) \<le> 99.5
     \<and> (generatePrediction uuid now params rnd = Inr res \<longrightarrow>
          50 \<le> etchUniformity (qualityMetrics res) \<and> etchUniformity (qualityMetrics res) \<le> 99.5)
     \<and> uniformityOf hotRecipe centreHeavy < 75
     \<and> 75 \<le> uniformityOf2D params distribution"
proof -
  note r = uniformityOf_range [of params distribution]
  have e: "50 \<le> etchUniformity (fst (predictQualityMetrics p d rnd m))
      \<and> etchUniformity (fst (predictQualityMetrics p d rnd m)) \<le> 99.5" for p d m
    unfolding etchUniformity_predict
    using toFixed1_range [OF uniformityOf_range [of p d]] by blast
  have "50 \<le> etchUniformity (qualityMetrics res) \<and> etchUniformity (qualityMetrics res) \<le> 99.5"
    if "generatePrediction uuid now params rnd = Inr res"
  proof -
    from generatePrediction_fields [OF that] obtain d
      where "qualityMetrics res = fst (predictQualityMetrics params d rnd 4000)" by blast
    then show ?thesis using e by simp
  qed
  moreover have "uniformityOf hotRecipe centreHeavy < 75"
  proof -
    define E :: real where "E = exp (- (5 / 8))"
    have "E \<le> 1" by (simp add: E_def)
    then have "max 50 (min 99.5 (80 * E - 25 / 2)) < 75" by simp
    moreover have "uniformityOf hotRecipe centreHeavy = max 50 (min 99.5 (80 * E - 25 / 2))"
      by (simp add: uniformityOf_def Let_def hotRecipe_def centreHeavy_def E_def)
    ultimately show ?thesis by simp
  qed
  moreover have "75 \<le> uniformityOf2D params distribution"
    unfolding uniformityOf2D_def Let_def by (rule max.cobounded1)
  ultimately show ?thesis using r e etchUniformity_predict by blast
qed

theorem uniformity_clamped_witness:
  "\<exists>res. generatePrediction ''id'' ''now'' wornChamber midRandom = Inr res
     \<and> 50 \<le> etchUniformity (qualityMetrics res) \<and> etchUniformity (qualityMetrics res) \<le> 99.5"
proof -
  from generatePrediction_returns [OF wornChamber_valid]
  obtain res where r: "generatePrediction ''id'' ''now'' wornChamber midRandom = Inr res" ..
  with uniformity_clamped [where params = wornChamber and uuid = "''id''" and now = "''now''"
      and rnd = midRandom and res = res]
  show ?thesis by blast
qed









text \<open>
  C10. In every result the engine returns, the \<^verbatim>\<open>recommendations\<close> field is the generated
  list when that list is not empty and is absent otherwise, never an empty array; the list
  is empty whenever no trigger pushes a suggestion. That happens for a status that is not
  safe: the worn chamber (every draw 1/2) gets an unsafe status and no field.
\<close>

theorem recommendations_field_optional:
  "(generatePrediction uuid now params rnd = Inr res \<longrightarrow>
      recommendations res
        = (if generateRecommendations params (radicalDistribution res) (qualityMetrics res)
                (status res) = []
           then None
           else Some (generateRecommendations params (radicalDistribution res)
                        (qualityMetrics res) (status res)))
      \<and> recommendations res \<noteq> Some [])
   \<and> (pushed params distribution metrics = [] \<longrightarrow>
        generateRecommendations params distribution metrics st = [])
   \<and> (\<exists>r. generatePrediction uuid now wornChamber midRandom = Inr r
          \<and> status r \<noteq> Safe \<and> recommendations r = None)"
proof (intro conjI impI)
  assume g: "generatePrediction uuid now params rnd = Inr res"
  show v: "recommendations res
        = (if generateRecommendations params (radicalDistribution res) (qualityMetrics res)
                (status res) = []
           then None
           else Some (generateRecommendations params (radicalDistribution res)
                        (qualityMetrics res) (status res)))"
    using g by (rule recommendations_field_value)
  show "recommendations res \<noteq> Some []"
    unfolding v by (simp split: if_splits)
next
  assume "pushed params distribution metrics = []"
  then show "generateRecommendations params distribution metrics st = []"
    by (simp add: generateRecommendations_def)
next
  from worn_prediction [of uuid now] obtain r
    where r: "generatePrediction uuid now wornChamber midRandom = Inr r"
      "status r \<noteq> Safe" "recommendations r = None"
    by (elim exE conjE) (rule that; assumption)
  show "\<exists>r. generatePrediction uuid now wornChamber midRandom = Inr r
          \<and> status r \<noteq> Safe \<and> recommendations r = None"
    by (intro exI [of _ r] conjI r)
qed

theorem recommendations_field_optional_witness:
  "(\<exists>res. generatePrediction ''id'' ''now'' wornChamber midRandom = Inr res
      \<and> status res \<noteq> Safe \<and> recommendations res = None)
   \<and> (\<exists>res. generatePrediction ''id'' ''now'' wornContinuous midRandom = Inr res
      \<and> recommendations res
          = Some (generateRecommendations wornContinuous (radicalDistribution res)
                    (qualityMetrics res) (status res))
      \<and> map parameter (generateRecommendations wornContinuous (radicalDistribution res)
                    (qualityMetrics res) (status res)) = [''Pulse Mode''])
   \<and> pushed wornChamber (centreHeavy\<lparr>highEnergyFraction := 0.25\<rparr>) poorMetrics = []
   \<and> generateRecommendations wornChamber (centreHeavy\<lparr>highEnergyFraction := 0.25\<rparr>)
         poorMetrics Danger = []"
proof -
  note t = recommendations_field_optional [where uuid = "''id''" and now = "''now''"
      and rnd = midRandom]
  have a: "\<exists>res. generatePrediction ''id'' ''now'' wornChamber midRandom = Inr res
      \<and> status res \<noteq> Safe \<and> recommendations res = None"
    by (rule t [where params = wornChamber, THEN conjunct2, THEN conjunct2])
  from continuous_prediction [of "''id''" "''now''"] obtain r2
    where r2: "generatePrediction ''id'' ''now'' wornContinuous midRandom = Inr r2"
      "recommendations r2
         = Some [\<lparr> parameter = ''Pulse Mode'', currentValue = 0, recommendedValue = 1,
                   reason = ''ratio-pulse'', priority = PMedium \<rparr>]"
    by (elim exE conjE) (rule that; assumption)
  have v: "recommendations r2
        = (if generateRecommendations wornContinuous (radicalDistribution r2) (qualityMetrics r2)
                (status r2) = []
           then None
           else Some (generateRecommendations wornContinuous (radicalDistribution r2)
                        (qualityMetrics r2) (status r2)))"
    using t [where params = wornContinuous and res = r2] r2(1) by simp
  have g: "generateRecommendations wornContinuous (radicalDistribution r2) (qualityMetrics r2) (status r2)
      = [\<lparr> parameter = ''Pulse Mode'', currentValue = 0, recommendedValue = 1,
                   reason = ''ratio-pulse'', priority = PMedium \<rparr>]"
    using v unfolding r2(2) by (simp split: if_splits)
  have p: "recommendations r2 = Some (generateRecommendations wornContinuous (radicalDistribution r2)
                    (qualityMetrics r2) (status r2))"
    unfolding r2(2) g by simp
  have q: "map parameter (generateRecommendations wornContinuous (radicalDistribution r2)
                    (qualityMetrics r2) (status r2)) = [''Pulse Mode'']"
    unfolding g by simp
  have b: "\<exists>res. generatePrediction ''id'' ''now'' wornContinuous midRandom = Inr res
      \<and> recommendations res
          = Some (generateRecommendations wornContinuous (radicalDistribution res)
                    (qualityMetrics res) (status res))
      \<and> map parameter (generateRecommendations wornContinuous (radicalDistribution res)
                    (qualityMetrics res) (status res)) = [''Pulse Mode'']"
    by (intro exI [of _ r2] conjI r2(1) p q)
  have c: "pushed wornChamber (centreHeavy\<lparr>highEnergyFraction := 0.25\<rparr>) poorMetrics = []"
    by (rule pushed_wornChamber) simp
  have d: "generateRecommendations wornChamber (centreHeavy\<lparr>highEnergyFraction := 0.25\<rparr>)
         poorMetrics Danger = []"
    by (rule t [where params = wornChamber and metrics = poorMetrics and st = Danger
          and distribution = "centreHeavy\<lparr>highEnergyFraction := 0.25\<rparr>",
          THEN conjunct2, THEN conjunct1, THEN mp, OF c])
  show ?thesis by (intro conjI a b c d)
qed

end
